theory Spec2Isabelle
  imports Main "HOL-Library.AList" "HOL-Library.Log_Nat"
begin

section \<open>Python values used by bot.py\<close>

subsection \<open>Strings\<close>

text \<open>
  A Python \<open>str\<close> is a sequence of Unicode code points, and \<open>len\<close> counts code points
  (the description cap of 200 and the Cyrillic skip word depend on it), so a string is a
  list of code points. \<open>lit\<close> embeds an ASCII literal.
\<close>

type_synonym pystr = "nat list"

definition lit :: "string \<Rightarrow> pystr" where
  "lit s = map of_char s"

text \<open>\<open>str.isspace\<close> for one code point: the characters \<open>str.strip()\<close> removes.\<close>

definition is_space :: "nat \<Rightarrow> bool" where
  "is_space c \<longleftrightarrow>
     (9 \<le> c \<and> c \<le> 13) \<or> (28 \<le> c \<and> c \<le> 32) \<or> c = 133 \<or> c = 160 \<or> c = 5760 \<or>
     (8192 \<le> c \<and> c \<le> 8202) \<or> c = 8232 \<or> c = 8233 \<or> c = 8239 \<or> c = 8287 \<or> c = 12288"

definition strip :: "pystr \<Rightarrow> pystr" where
  "strip s = rev (dropWhile is_space (rev (dropWhile is_space s)))"

text \<open>
  \<open>str.lower()\<close> on the part of the Unicode case table that can produce a character of
  the texts the bot compares with: Basic Latin, the Cyrillic capitals U+0400..U+042F and
  the Kelvin sign U+212A (whose lower case is the ASCII letter k). Every other code point
  is left as it is: where Python changes one of them (U+0130 becomes \<open>i\<close> followed by a
  combining dot), the result holds a character that none of those texts has, so every
  comparison with them comes out the same.
\<close>

definition lower_cp :: "nat \<Rightarrow> nat" where
  "lower_cp c =
     (if 65 \<le> c \<and> c \<le> 90 then c + 32
      else if 1040 \<le> c \<and> c \<le> 1071 then c + 32
      else if 1024 \<le> c \<and> c \<le> 1039 then c + 80
      else if c = 8490 then 107
      else c)"

definition lower :: "pystr \<Rightarrow> pystr" where
  "lower s = map lower_cp s"

definition startswith :: "pystr \<Rightarrow> pystr \<Rightarrow> bool" where
  "startswith s p \<longleftrightarrow> take (length p) s = p"

text \<open>
  \<open>s.replace(old, '')\<close> for a non-empty \<open>old\<close>: every non-overlapping occurrence is
  removed, scanning from the left, not only a leading one.
\<close>

function remove_all :: "pystr \<Rightarrow> pystr \<Rightarrow> pystr" where
  "remove_all old s =
     (if old = [] then s
      else if s = [] then []
      else if startswith s old then remove_all old (drop (length old) s)
      else hd s # remove_all old (tl s))"
  by pat_completeness auto
termination
  by (relation "measure (\<lambda>(old, s). length s)") auto

text \<open>\<open>s.split('_')\<close>: the list of fields between the separators, never empty.\<close>

fun split_on :: "nat \<Rightarrow> pystr \<Rightarrow> pystr list" where
  "split_on sep [] = [[]]"
| "split_on sep (c # cs) =
     (if c = sep then [] # split_on sep cs
      else (case split_on sep cs of
              [] \<Rightarrow> [[c]]
            | p # ps \<Rightarrow> (c # p) # ps))"

text \<open>\<open>sep.join(parts)\<close>.\<close>

fun join :: "pystr \<Rightarrow> pystr list \<Rightarrow> pystr" where
  "join sep [] = []"
| "join sep [p] = p"
| "join sep (p # ps) = p @ sep @ join sep ps"

text \<open>
  \<open>re.match(r'^[a-zA-Z0-9_]{3,30}$', s)\<close>: three to thirty word characters; \<open>$\<close> also
  matches before one final newline.
\<close>

definition is_name_char :: "nat \<Rightarrow> bool" where
  "is_name_char c \<longleftrightarrow>
     (97 \<le> c \<and> c \<le> 122) \<or> (65 \<le> c \<and> c \<le> 90) \<or> (48 \<le> c \<and> c \<le> 57) \<or> c = 95"

definition name_re_match :: "pystr \<Rightarrow> bool" where
  "name_re_match s \<longleftrightarrow>
     (let t = (if s \<noteq> [] \<and> last s = 10 then butlast s else s)
      in 3 \<le> length t \<and> length t \<le> 30 \<and> list_all is_name_char t)"

text \<open>\<open>os.path.join(a, b)\<close> of posixpath: an absolute \<open>b\<close> replaces \<open>a\<close>.\<close>

definition path_join :: "pystr \<Rightarrow> pystr \<Rightarrow> pystr" where
  "path_join a b =
     (if startswith b (lit ''/'') then b
      else if a = [] \<or> last a = 47 then a @ b
      else a @ lit ''/'' @ b)"

subsection \<open>Floats\<close>

text \<open>
  A Python \<open>float\<close> is an IEEE binary64 value: a finite value (kept as the rational it
  denotes), an infinity or NaN. Every comparison with NaN is false.
\<close>

datatype pyfloat = Finite rat | PosInf | NegInf | NaN

fun fless :: "pyfloat \<Rightarrow> pyfloat \<Rightarrow> bool" where
  "fless NaN _ = False"
| "fless _ NaN = False"
| "fless (Finite a) (Finite b) = (a < b)"
| "fless (Finite a) PosInf = True"
| "fless (Finite a) NegInf = False"
| "fless PosInf _ = False"
| "fless NegInf (Finite b) = True"
| "fless NegInf PosInf = True"
| "fless NegInf NegInf = False"

definition fgreater :: "pyfloat \<Rightarrow> pyfloat \<Rightarrow> bool" where
  "fgreater a b = fless b a"

text \<open>Rounding of a rational to the nearest binary64 value, ties to even.\<close>

definition pow2 :: "int \<Rightarrow> rat" where
  "pow2 e = (if 0 \<le> e then 2 ^ nat e else 1 / 2 ^ nat (- e))"

definition round_half_even :: "rat \<Rightarrow> int" where
  "round_half_even x =
     (let f = \<lfloor>x\<rfloor>; d = x - of_int f
      in if d < 1 / 2 then f else if 1 / 2 < d then f + 1 else if even f then f else f + 1)"

definition floor_log2 :: "rat \<Rightarrow> int" where
  "floor_log2 a =
     (let (n, d) = quotient_of a; e0 = bitlen n - bitlen d
      in if a < pow2 e0 then e0 - 1 else e0)"

definition round_binary64 :: "rat \<Rightarrow> pyfloat" where
  "round_binary64 q =
     (if q = 0 then Finite 0
      else let a = \<bar>q\<bar>;
               e = max (floor_log2 a) (- 1022);
               quantum = pow2 (e - 52);
               r = of_int (round_half_even (a / quantum)) * quantum
           in if pow2 1024 \<le> r then (if q < 0 then NegInf else PosInf)
              else Finite (if q < 0 then - r else r))"

text \<open>
  \<open>float(s)\<close>: surrounding white space is dropped; an optional sign; then \<open>nan\<close>,
  \<open>inf\<close> or \<open>infinity\<close> in any case, or a decimal literal
  \<open>digits[.[digits]][(e|E)[sign]digits]\<close> or \<open>.digits[...]\<close>, where single underscores
  may separate digits. \<open>None\<close> is the \<open>ValueError\<close>. Before the text is read, every
  Unicode decimal digit stands for its value and every white-space character for a
  space; sign, point, exponent letter, underscore and the three words are ASCII only.
\<close>

text \<open>
  The decimal digits of Unicode 14 (general category Nd): 66 runs of ten consecutive
  code points, each starting at the digit zero of a script; the list holds the zeros.
\<close>

definition decimal_zeros :: "nat list" where
  "decimal_zeros =
     [48, 1632, 1776, 1984, 2406, 2534, 2662, 2790, 2918, 3046, 3174, 3302, 3430, 3558,
      3664, 3792, 3872, 4160, 4240, 6112, 6160, 6470, 6608, 6784, 6800, 6992, 7088, 7232,
      7248, 42528, 43216, 43264, 43472, 43504, 43600, 44016, 65296, 66720, 68912, 69734,
      69872, 69942, 70096, 70384, 70736, 70864, 71248, 71360, 71472, 71904, 72016, 72784,
      73040, 73120, 92768, 92864, 93008, 120782, 120792, 120802, 120812, 120822, 123200,
      123632, 125264, 130032]"

definition digit_of :: "nat \<Rightarrow> nat option" where
  "digit_of c = map_option (\<lambda>z. c - z) (find (\<lambda>z. z \<le> c \<and> c \<le> z + 9) decimal_zeros)"

definition is_digit :: "nat \<Rightarrow> bool" where
  "is_digit c \<longleftrightarrow> digit_of c \<noteq> None"

text \<open>ASCII lower case, for the words \<open>nan\<close>, \<open>inf\<close> and \<open>infinity\<close>.\<close>

definition ascii_lower :: "pystr \<Rightarrow> pystr" where
  "ascii_lower s = map (\<lambda>c. if 65 \<le> c \<and> c \<le> 90 then c + 32 else c) s"

text \<open>
  \<open>digitpart\<close>: reads \<open>digit (["_"] digit)*\<close> from the front; returns the digits read
  (as numbers) and the rest, or \<open>None\<close> when the text does not start with a digit.
\<close>

fun digits_tail :: "pystr \<Rightarrow> nat list \<times> pystr" where
  "digits_tail [] = ([], [])"
| "digits_tail [c] = (case digit_of c of Some v \<Rightarrow> ([v], []) | None \<Rightarrow> ([], [c]))"
| "digits_tail (c # d # cs) =
     (case digit_of c of
        Some v \<Rightarrow> (case digits_tail (d # cs) of (ds, r) \<Rightarrow> (v # ds, r))
      | None \<Rightarrow>
          if c = 95 \<and> is_digit d then digits_tail (d # cs)
          else ([], c # d # cs))"

definition digitpart :: "pystr \<Rightarrow> (nat list \<times> pystr) option" where
  "digitpart s =
     (case s of [] \<Rightarrow> None
      | c # cs \<Rightarrow> if is_digit c then Some (digits_tail s) else None)"

definition digits_value :: "nat list \<Rightarrow> nat" where
  "digits_value ds = foldl (\<lambda>acc d. 10 * acc + d) 0 ds"

definition take_sign :: "pystr \<Rightarrow> bool \<times> pystr" where
  "take_sign s =
     (case s of [] \<Rightarrow> (False, [])
      | c # cs \<Rightarrow> if c = 45 then (True, cs) else if c = 43 then (False, cs) else (False, s))"

text \<open>The exponent part, or the end of the text: the power of ten to scale by.\<close>

definition exponent :: "pystr \<Rightarrow> int option" where
  "exponent s =
     (case s of [] \<Rightarrow> Some 0
      | c # cs \<Rightarrow>
          if c = 101 \<or> c = 69 then
            (case take_sign cs of (neg, r) \<Rightarrow>
               (case digitpart r of
                  Some (ds, []) \<Rightarrow> Some (if neg then - int (digits_value ds) else int (digits_value ds))
                | _ \<Rightarrow> None))
          else None)"

definition scale10 :: "rat \<Rightarrow> int \<Rightarrow> rat" where
  "scale10 q e = (if 0 \<le> e then q * 10 ^ nat e else q / 10 ^ nat (- e))"

definition floatnumber :: "pystr \<Rightarrow> rat option" where
  "floatnumber s =
     (case digitpart s of
        Some (ip, r) \<Rightarrow>
          (case r of
             c # cs \<Rightarrow>
               if c = 46 then
                 (case digitpart cs of
                    Some (fp, r') \<Rightarrow>
                      map_option
                        (scale10 (of_nat (digits_value (ip @ fp)) / 10 ^ length fp))
                        (exponent r')
                  | None \<Rightarrow> map_option (scale10 (of_nat (digits_value ip))) (exponent cs))
               else map_option (scale10 (of_nat (digits_value ip))) (exponent r)
           | [] \<Rightarrow> Some (of_nat (digits_value ip)))
      | None \<Rightarrow>
          (case s of
             c # cs \<Rightarrow>
               if c = 46 then
                 (case digitpart cs of
                    Some (fp, r') \<Rightarrow>
                      map_option
                        (scale10 (of_nat (digits_value fp) / 10 ^ length fp))
                        (exponent r')
                  | None \<Rightarrow> None)
               else None
           | [] \<Rightarrow> None))"

definition py_float :: "pystr \<Rightarrow> pyfloat option" where
  "py_float s =
     (case take_sign (strip s) of (neg, r) \<Rightarrow>
        if ascii_lower r = lit ''nan'' then Some NaN
        else if ascii_lower r = lit ''inf'' \<or> ascii_lower r = lit ''infinity''
          then Some (if neg then NegInf else PosInf)
        else map_option (\<lambda>q. round_binary64 (if neg then - q else q)) (floatnumber r))"

section \<open>The voice registry: class Qwen3TTSManager\<close>

subsection \<open>Constants of the module\<close>

definition DEFAULT_VOICE_NAME :: pystr where
  "DEFAULT_VOICE_NAME = lit ''default''"

definition VOICE_LIBRARY_DIR :: pystr where
  "VOICE_LIBRARY_DIR = lit ''voice_library''"

definition TEMP_DIR :: pystr where
  "TEMP_DIR = lit ''temp_audio''"

subsection \<open>Data\<close>

text \<open>
  A settings dictionary maps a key (\<open>speed\<close>, \<open>pitch\<close>, \<open>volume\<close>, \<open>emotion\<close>,
  \<open>language\<close>) to a float or a string; a Python dict keeps insertion order, so it is an
  association list.
\<close>

datatype pyval = VFloat pyfloat | VStr pystr

type_synonym sdict = "(pystr \<times> pyval) list"

text \<open>
  A voice entry of \<open>config['voices']\<close>. The entry holds its settings dictionary by
  reference: that dictionary is an object which \<open>update_voice_settings\<close> mutates in
  place, so the type of the \<open>settings\<close> field is a parameter: an address into the object
  store in memory, the dictionary itself in the JSON document on disk. The key \<open>cloned\<close>
  is only ever read for its truth value (\<open>v.get('cloned')\<close>), so an absent key and
  \<open>False\<close> are the same field value.
\<close>

record 's voice =
  model :: pystr
  settings :: 's
  cloned :: bool
  cloned_from :: "pystr option"
  reference_text :: "pystr option"
  created_at :: pystr
  description :: pystr

type_synonym ref = nat

text \<open>
  The manager object: \<open>self.config\<close> with the keys the registry and the dialogue read
  (\<open>voices\<close> in insertion order, \<open>default_voice\<close>, the two limits, the audio format),
  and the store of settings dictionaries with the next unused address.
\<close>

record manager =
  voices :: "(pystr \<times> ref voice) list"
  default_voice :: pystr
  max_voice_duration :: pyfloat
  max_text_length :: nat
  audio_format :: pystr
  objs :: "ref \<Rightarrow> sdict"
  next_ref :: ref

text \<open>The JSON document \<open>bot_config.json\<close>: what \<open>json.dump(self.config)\<close> writes.\<close>

record document =
  doc_voices :: "(pystr \<times> sdict voice) list"
  doc_default_voice :: pystr
  doc_max_voice_duration :: pyfloat
  doc_max_text_length :: nat
  doc_audio_format :: pystr

text \<open>
  What the registry touches outside the process: the configuration file (absent,
  holding a document, or cut short by a write that failed), the way in which the next
  write of it fails, if it does, the regular
  files and directories by path (paths are compared as written, without normalisation),
  the clock, and whether each kind of file-system call succeeds when it is made. For the
  collaborators of the dialogue it also holds what they answer: the bytes that
  \<open>download_to_drive\<close> writes, the duration that \<open>librosa.get_duration\<close> reports, the
  audio that the synthesis pipeline returns (\<open>None\<close> when the call raises), whether the
  pipeline was loaded at start, and whether sending a voice message succeeds.
\<close>

datatype config_file = NoFile | Saved document | Truncated

datatype write_fault = OpenFails | WriteFails | EncodeFails

record world =
  disk :: config_file
  store_fault :: "write_fault option"
  files :: "pystr \<Rightarrow> nat list option"
  dirs :: "pystr set"
  makedirs_ok :: bool
  copy_ok :: bool
  rmtree_ok :: bool
  now :: pystr
  now_compact :: pystr
  download :: "nat list option"
  probe :: "pyfloat option"
  tts_loaded :: bool
  pipeline_out :: "nat list option"
  send_ok :: bool

datatype exn =
  OSError | KeyError | TypeError | AttributeError | IndexError | ValueError
  | UnboundLocalError

text \<open>
  The message of a returned \<open>(success, message)\<close> pair, one constructor for each
  message text of the class: \<open>AlreadyExists\<close> is "a voice with this name already
  exists", \<open>NotFound\<close> "voice not found", \<open>IsDefaultVoice\<close> "the default voice cannot
  be deleted"; the others carry the name or the exception that the text interpolates.
\<close>

datatype message =
  AlreadyExists | NotFound | IsDefaultVoice
  | Created pystr | Cloned pystr | CloneError exn | Deleted pystr
  | SettingsUpdated | DefaultSet pystr

text \<open>A call returns its pair or raises; the manager and the world come back with it.\<close>

type_synonym result = "(exn + bool \<times> message) \<times> manager \<times> world"

subsection \<open>Persistence: save_config\<close>

definition voice_json :: "(ref \<Rightarrow> sdict) \<Rightarrow> ref voice \<Rightarrow> sdict voice" where
  "voice_json h v =
     \<lparr>model = model v, settings = h (settings v), cloned = cloned v,
      cloned_from = cloned_from v, reference_text = reference_text v,
      created_at = created_at v, description = description v\<rparr>"

definition config_json :: "manager \<Rightarrow> document" where
  "config_json m =
     \<lparr>doc_voices = map (\<lambda>(n, v). (n, voice_json (objs m) v)) (voices m),
      doc_default_voice = default_voice m,
      doc_max_voice_duration = max_voice_duration m,
      doc_max_text_length = max_text_length m,
      doc_audio_format = audio_format m\<rparr>"

text \<open>
  \<open>save_config\<close> opens the file with mode \<open>'w'\<close>, which empties it, and then dumps the
  whole configuration into it. The write can fail in three ways: \<open>open\<close> raises
  \<open>OSError\<close> and the file is as before; the file system raises \<open>OSError\<close> while the
  document is written; or the encoder raises \<open>UnicodeEncodeError\<close>, a \<open>ValueError\<close>,
  because the configuration holds text that UTF-8 cannot encode (\<open>ensure_ascii\<close> is off).
  In the last two cases the file is left cut short. Which of them happens, if any, is
  given by the world.
\<close>

definition fault_exn :: "write_fault \<Rightarrow> exn" where
  "fault_exn f = (case f of OpenFails \<Rightarrow> OSError | WriteFails \<Rightarrow> OSError | EncodeFails \<Rightarrow> ValueError)"

definition after_fault :: "write_fault \<Rightarrow> config_file \<Rightarrow> config_file" where
  "after_fault f d = (case f of OpenFails \<Rightarrow> d | WriteFails \<Rightarrow> Truncated | EncodeFails \<Rightarrow> Truncated)"

definition store_ok :: "world \<Rightarrow> bool" where
  "store_ok w \<longleftrightarrow> store_fault w = None"

definition save_config :: "manager \<Rightarrow> world \<Rightarrow> exn option \<times> world" where
  "save_config m w =
     (case store_fault w of
        None \<Rightarrow> (None, w\<lparr>disk := Saved (config_json m)\<rparr>)
      | Some f \<Rightarrow> (Some (fault_exn f), w\<lparr>disk := after_fault f (disk w)\<rparr>))"

subsection \<open>Queries\<close>

definition get_voice_list :: "manager \<Rightarrow> pystr list" where
  "get_voice_list m = map fst (voices m)"

definition get_voice_info :: "manager \<Rightarrow> pystr \<Rightarrow> ref voice option" where
  "get_voice_info m voice_name = map_of (voices m) voice_name"

text \<open>\<open>voice_name in self.config['voices']\<close>.\<close>

definition has_voice :: "manager \<Rightarrow> pystr \<Rightarrow> bool" where
  "has_voice m voice_name \<longleftrightarrow> voice_name \<in> set (get_voice_list m)"

text \<open>\<open>self.config['voices'][voice_name]['settings']\<close>, read through the reference.\<close>

definition settings_of :: "manager \<Rightarrow> pystr \<Rightarrow> sdict option" where
  "settings_of m voice_name =
     (case get_voice_info m voice_name of None \<Rightarrow> None | Some v \<Rightarrow> Some (objs m (settings v)))"

subsection \<open>create_voice\<close>

text \<open>
  The two generated descriptions, as code points: the Russian texts
  "Pol'zovatel'skij golos: " (user voice) and "Klonirovannyj golos: " (cloned voice),
  each ending in a colon and a space, to which the voice name is appended.
\<close>

definition user_voice_prefix :: pystr where
  "user_voice_prefix =
     [1055, 1086, 1083, 1100, 1079, 1086, 1074, 1072, 1090, 1077, 1083, 1100, 1089, 1082,
      1080, 1081, 32, 1075, 1086, 1083, 1086, 1089, 58, 32]"

definition cloned_voice_prefix :: pystr where
  "cloned_voice_prefix =
     [1050, 1083, 1086, 1085, 1080, 1088, 1086, 1074, 1072, 1085, 1085, 1099, 1081, 32,
      1075, 1086, 1083, 1086, 1089, 58, 32]"

text \<open>
  \<open>d.copy()\<close> of a settings dictionary: a new object with the same items. The values
  are floats and strings, which are immutable.
\<close>

definition copy_settings :: "ref \<Rightarrow> manager \<Rightarrow> ref \<times> manager" where
  "copy_settings a m =
     (next_ref m, m\<lparr>objs := (objs m)(next_ref m := objs m a), next_ref := Suc (next_ref m)\<rparr>)"

text \<open>\<open>self.config['voices'][DEFAULT_VOICE_NAME]\<close>: the entry named \<open>default\<close>.\<close>

definition default_entry :: "manager \<Rightarrow> exn + ref voice" where
  "default_entry m =
     (case get_voice_info m DEFAULT_VOICE_NAME of None \<Rightarrow> Inl KeyError | Some d \<Rightarrow> Inr d)"

text \<open>
  The optional arguments are \<open>None\<close> by default; \<open>x or y\<close> takes \<open>y\<close> also for an empty
  string or an empty dictionary, and evaluates \<open>y\<close> only then. The template is the entry
  stored under the literal name \<open>default\<close>. The entry is stored first and the
  configuration saved after it; an exception of \<open>save_config\<close> is not caught. In the
  source file the line of the dictionary literal between \<open>settings\<close> and \<open>created_at\<close>
  has lost its text (its comma is left); the entry of \<open>DEFAULT_CONFIG\<close> has
  \<open>"cloned": False\<close> at that place, and the key is read for its truth value only, so
  the new entry has \<open>cloned\<close> false.
\<close>

definition model_or_default :: "pystr option \<Rightarrow> manager \<Rightarrow> exn + pystr" where
  "model_or_default model_arg m =
     (case model_arg of
        Some x \<Rightarrow> if x \<noteq> [] then Inr x else map_sum id model (default_entry m)
      | None \<Rightarrow> map_sum id model (default_entry m))"

definition settings_or_default :: "ref option \<Rightarrow> manager \<Rightarrow> exn + ref \<times> manager" where
  "settings_or_default settings_arg m =
     (case settings_arg of
        Some a \<Rightarrow>
          if objs m a \<noteq> [] then Inr (a, m)
          else map_sum id (\<lambda>d. copy_settings (settings d) m) (default_entry m)
      | None \<Rightarrow> map_sum id (\<lambda>d. copy_settings (settings d) m) (default_entry m))"

definition create_voice ::
  "pystr \<Rightarrow> pystr option \<Rightarrow> ref option \<Rightarrow> pystr \<Rightarrow> manager \<Rightarrow> world \<Rightarrow> result" where
  "create_voice voice_name model_arg settings_arg description_arg m w =
     (if has_voice m voice_name then (Inr (False, AlreadyExists), m, w)
      else
        (case model_or_default model_arg m of
           Inl e \<Rightarrow> (Inl e, m, w)
         | Inr mdl \<Rightarrow>
             (case settings_or_default settings_arg m of
                Inl e \<Rightarrow> (Inl e, m, w)
              | Inr (r, m0) \<Rightarrow>
                  let v = \<lparr>model = mdl, settings = r, cloned = False,
                           cloned_from = None, reference_text = None, created_at = now w,
                           description =
                             (if description_arg \<noteq> [] then description_arg
                              else user_voice_prefix @ voice_name)\<rparr>;
                      m1 = m0\<lparr>voices := AList.update voice_name v (voices m0)\<rparr>
                  in (case save_config m1 w of
                        (Some e, w1) \<Rightarrow> (Inl e, m1, w1)
                      | (None, w1) \<Rightarrow> (Inr (True, Created voice_name), m1, w1)))))"

subsection \<open>clone_voice\<close>

text \<open>
  \<open>os.makedirs(d, exist_ok=True)\<close> and \<open>shutil.copy2(src, dst)\<close>: each raises
  \<open>OSError\<close> when the file system refuses, and \<open>copy2\<close> also when the source file does
  not exist.
\<close>

definition makedirs :: "pystr \<Rightarrow> world \<Rightarrow> exn + world" where
  "makedirs d w = (if makedirs_ok w then Inr (w\<lparr>dirs := insert d (dirs w)\<rparr>) else Inl OSError)"

definition copy2 :: "pystr \<Rightarrow> pystr \<Rightarrow> world \<Rightarrow> exn + world" where
  "copy2 src dst w =
     (case files w src of
        None \<Rightarrow> Inl OSError
      | Some b \<Rightarrow> if copy_ok w then Inr (w\<lparr>files := (files w)(dst := Some b)\<rparr>) else Inl OSError)"

text \<open>
  The whole body is inside \<open>try\<close>: every exception becomes the pair
  \<open>(False, "clone error: ...")\<close>, with whatever had been done before it left in place.
  A present name is refused unless it is the literal \<open>default\<close>.
\<close>

definition clone_voice ::
  "pystr \<Rightarrow> pystr \<Rightarrow> pystr \<Rightarrow> pystr \<Rightarrow> manager \<Rightarrow> world \<Rightarrow> result" where
  "clone_voice voice_name audio_path reference_text_arg description_arg m w =
     (if has_voice m voice_name \<and> voice_name \<noteq> DEFAULT_VOICE_NAME
      then (Inr (False, AlreadyExists), m, w)
      else
        let voice_dir = path_join VOICE_LIBRARY_DIR voice_name in
        (case makedirs voice_dir w of
           Inl e \<Rightarrow> (Inr (False, CloneError e), m, w)
         | Inr w1 \<Rightarrow>
             let cloned_audio_path = path_join voice_dir (lit ''reference_audio.wav'') in
             (case copy2 audio_path cloned_audio_path w1 of
                Inl e \<Rightarrow> (Inr (False, CloneError e), m, w1)
              | Inr w2 \<Rightarrow>
                  (case default_entry m of
                     Inl e \<Rightarrow> (Inr (False, CloneError e), m, w2)
                   | Inr d \<Rightarrow>
                       let (r, m0) = copy_settings (settings d) m;
                           v = \<lparr>model = model d, settings = r, cloned = True,
                                cloned_from = Some cloned_audio_path,
                                reference_text = Some reference_text_arg,
                                created_at = now w2,
                                description =
                                  (if description_arg \<noteq> [] then description_arg
                                   else cloned_voice_prefix @ voice_name)\<rparr>;
                           m1 = m0\<lparr>voices := AList.update voice_name v (voices m0)\<rparr>
                       in (case save_config m1 w2 of
                             (Some e, w3) \<Rightarrow> (Inr (False, CloneError e), m1, w3)
                           | (None, w3) \<Rightarrow> (Inr (True, Cloned voice_name), m1, w3))))))"

subsection \<open>delete_voice\<close>

definition path_exists :: "world \<Rightarrow> pystr \<Rightarrow> bool" where
  "path_exists w p \<longleftrightarrow> p \<in> dirs w \<or> files w p \<noteq> None"

text \<open>A path lies under directory \<open>d\<close> when it continues \<open>d\<close> after a separator.\<close>

definition is_under :: "pystr \<Rightarrow> pystr \<Rightarrow> bool" where
  "is_under d p \<longleftrightarrow> startswith p (if d \<noteq> [] \<and> last d = 47 then d else d @ lit ''/'')"

text \<open>
  \<open>shutil.rmtree(d)\<close> removes the directory and all below it, or raises \<open>OSError\<close>
  (also when \<open>d\<close> is not a directory).
\<close>

definition rmtree :: "pystr \<Rightarrow> world \<Rightarrow> exn + world" where
  "rmtree d w =
     (if rmtree_ok w \<and> d \<in> dirs w
      then Inr (w\<lparr>files := (\<lambda>p. if is_under d p then None else files w p),
                  dirs := {p \<in> dirs w. p \<noteq> d \<and> \<not> is_under d p}\<rparr>)
      else Inl OSError)"

text \<open>
  The guard compares with the literal name \<open>default\<close>, after the test of presence. A
  failure to remove the sample directory is logged and ignored. The entry is deleted,
  the default pointer is moved to \<open>default\<close> when it named the deleted voice, and the
  configuration is saved last.
\<close>

definition delete_voice :: "pystr \<Rightarrow> manager \<Rightarrow> world \<Rightarrow> result" where
  "delete_voice voice_name m w =
     (if \<not> has_voice m voice_name then (Inr (False, NotFound), m, w)
      else if voice_name = DEFAULT_VOICE_NAME then (Inr (False, IsDefaultVoice), m, w)
      else
        let voice_dir = path_join VOICE_LIBRARY_DIR voice_name;
            w1 = (if path_exists w voice_dir
                  then (case rmtree voice_dir w of Inl e \<Rightarrow> w | Inr w' \<Rightarrow> w')
                  else w);
            m1 = m\<lparr>voices := AList.delete voice_name (voices m)\<rparr>;
            m2 = (if default_voice m1 = voice_name
                  then m1\<lparr>default_voice := DEFAULT_VOICE_NAME\<rparr> else m1)
        in (case save_config m2 w1 of
              (Some e, w2) \<Rightarrow> (Inl e, m2, w2)
            | (None, w2) \<Rightarrow> (Inr (True, Deleted voice_name), m2, w2)))"

subsection \<open>update_voice_settings and set_default_voice\<close>

text \<open>\<open>d.update(other)\<close>: each item of \<open>other\<close> in turn replaces or appends.\<close>

definition dict_update :: "sdict \<Rightarrow> sdict \<Rightarrow> sdict" where
  "dict_update d other = foldl (\<lambda>acc (k, v). AList.update k v acc) d other"

text \<open>
  The settings dictionary of the entry is updated in place (the object at the entry's
  address), then the configuration is saved. Nothing is validated here.
\<close>

definition update_voice_settings :: "pystr \<Rightarrow> sdict \<Rightarrow> manager \<Rightarrow> world \<Rightarrow> result" where
  "update_voice_settings voice_name new_settings m w =
     (case get_voice_info m voice_name of
        None \<Rightarrow> (Inr (False, NotFound), m, w)
      | Some v \<Rightarrow>
          let m1 = m\<lparr>objs := (objs m)(settings v := dict_update (objs m (settings v)) new_settings)\<rparr>
          in (case save_config m1 w of
                (Some e, w1) \<Rightarrow> (Inl e, m1, w1)
              | (None, w1) \<Rightarrow> (Inr (True, SettingsUpdated), m1, w1)))"

definition set_default_voice :: "pystr \<Rightarrow> manager \<Rightarrow> world \<Rightarrow> result" where
  "set_default_voice voice_name m w =
     (if \<not> has_voice m voice_name then (Inr (False, NotFound), m, w)
      else
        let m1 = m\<lparr>default_voice := voice_name\<rparr>
        in (case save_config m1 w of
              (Some e, w1) \<Rightarrow> (Inl e, m1, w1)
            | (None, w1) \<Rightarrow> (Inr (True, DefaultSet voice_name), m1, w1)))"

section \<open>The dialogue: handlers of text, buttons and audio\<close>

subsection \<open>Session, replies and outcomes\<close>

text \<open>
  \<open>context.user_data\<close>, the per-user dictionary of flags. A flag read with
  \<open>user_data.get(key)\<close> is a boolean (an absent key and \<open>False\<close> read the same); a key
  tested with \<open>in\<close> or read with \<open>[key]\<close> is optional. \<open>adjusting_param\<close> holds the
  pair of \<open>type\<close> and \<open>voice\<close>.
\<close>

record session =
  adjusting_param :: "(pystr \<times> pystr) option"
  editing_description :: "pystr option"
  awaiting_voice_name :: bool
  new_voice_name :: "pystr option"
  awaiting_voice_description :: bool
  pending_text :: "pystr option"
  awaiting_voice_audio :: bool
  voice_audio_path :: "pystr option"
  awaiting_cloned_voice_name :: bool
  cloned_voice_name :: "pystr option"
  awaiting_cloned_voice_description :: bool
  cloning_voice :: "pystr option"

definition idle :: session where
  "idle =
     \<lparr>adjusting_param = None, editing_description = None, awaiting_voice_name = False,
      new_voice_name = None, awaiting_voice_description = False, pending_text = None,
      awaiting_voice_audio = False, voice_audio_path = None,
      awaiting_cloned_voice_name = False, cloned_voice_name = None,
      awaiting_cloned_voice_description = False, cloning_voice = None\<rparr>"

text \<open>
  What a handler sends to the chat, one constructor for each message or menu of the
  source. Calls of the chat channel are taken to succeed, except the sending of the
  synthesised audio, whose failure the source handles.
\<close>

datatype reply =
  SpeedOutOfRange | PitchOutOfRange | VolumeOutOfRange
  | ParamSet pystr pyfloat | Failure message | NotANumber
  | InvalidEmotion | EmotionSet pystr
  | DescriptionTooLong | DescriptionUpdated pystr
  | InvalidNameFormat | NameTaken | AskDescription pystr | VoiceCreated message
  | TextTooLong | TextTooShort | ChooseVoice nat | SuggestSynthesis
  | NoAudioFile | Downloading | AudioTooLong | AudioTooShort | AudioReceived pyfloat
  | AudioError | AskClonedDescription pystr | AudioFileMissing | CloningStarted
  | CloneDone message | AudioOnlyWhenCloning
  | Generating pystr | GenerationError | FileTooBig | VoiceSent pystr | SendError
  | ShowVoices int | VoiceSelected pystr | Alert message | ShowVoiceMenu pystr
  | ShowSettings pystr | AskParamValue pystr | ShowEmotionKeyboard pystr
  | ShowLanguageKeyboard pystr | EmotionChosen pystr | LanguageChosen pystr
  | SettingsSaved pystr | AskCloneAudio pystr | AskNewDescription pystr
  | DefaultNotDeletable | ConfirmDelete pystr | DeletedShowVoices message
  | AskVoiceName | ShowMainMenu | Answered

text \<open>
  The result of one handler call: the exception that left it, if any, the replies sent,
  and the session, manager and world as the call leaves them.
\<close>

record outcome =
  raised :: "exn option"
  replies :: "reply list"
  sess :: session
  mgr :: manager
  wld :: world

definition returns :: "reply list \<Rightarrow> session \<Rightarrow> manager \<Rightarrow> world \<Rightarrow> outcome" where
  "returns rs s m w = \<lparr>raised = None, replies = rs, sess = s, mgr = m, wld = w\<rparr>"

definition raises :: "exn \<Rightarrow> reply list \<Rightarrow> session \<Rightarrow> manager \<Rightarrow> world \<Rightarrow> outcome" where
  "raises e rs s m w = \<lparr>raised = Some e, replies = rs, sess = s, mgr = m, wld = w\<rparr>"

subsection \<open>Menus that read the registry\<close>

text \<open>
  The keyboards are not modelled beyond the exception they raise when the voice they
  are built for is missing. \<open>get_voice_settings_menu\<close> calls \<open>.get\<close> on the result of
  \<open>get_voice_info\<close> (\<open>AttributeError\<close> on \<open>None\<close>); \<open>get_settings_keyboard\<close> subscripts
  it (\<open>TypeError\<close> on \<open>None\<close>) and then reads the five settings keys (\<open>KeyError\<close>).
\<close>

definition get_voice_settings_menu :: "manager \<Rightarrow> pystr \<Rightarrow> exn option" where
  "get_voice_settings_menu m voice_name =
     (case get_voice_info m voice_name of None \<Rightarrow> Some AttributeError | Some v \<Rightarrow> None)"

definition settings_keys :: "pystr list" where
  "settings_keys = [lit ''speed'', lit ''pitch'', lit ''volume'', lit ''emotion'', lit ''language'']"

definition get_settings_keyboard :: "manager \<Rightarrow> pystr \<Rightarrow> exn option" where
  "get_settings_keyboard m voice_name =
     (case get_voice_info m voice_name of
        None \<Rightarrow> Some TypeError
      | Some v \<Rightarrow>
          if list_all (\<lambda>k. map_of (objs m (settings v)) k \<noteq> None) settings_keys then None
          else Some KeyError)"

subsection \<open>handle_text_input\<close>

text \<open>The float literals \<open>0.5\<close>, \<open>2.0\<close>, \<open>1.0\<close> and \<open>0.1\<close> as binary64 values.\<close>

definition f_0_5 :: pyfloat where "f_0_5 = Finite (1 / 2)"
definition f_2_0 :: pyfloat where "f_2_0 = Finite 2"
definition f_1_0 :: pyfloat where "f_1_0 = Finite 1"
definition f_0_1 :: pyfloat where "f_0_1 = Finite (3602879701896397 / 36028797018963968)"

definition numeric_params :: "pystr list" where
  "numeric_params = [lit ''speed'', lit ''pitch'', lit ''volume'']"

definition valid_emotions :: "pystr list" where
  "valid_emotions = [lit ''neutral'', lit ''happy'', lit ''sad'', lit ''angry'', lit ''excited'']"

text \<open>
  The branch for a pending parameter edit. The \<open>try\<close> catches \<open>ValueError\<close> only:
  the one \<open>float(text)\<close> raises, and also the one \<open>save_config\<close> raises inside
  \<open>update_voice_settings\<close> when the configuration cannot be encoded; both are answered
  with the request for a correct number and skip the deletion of \<open>adjusting_param\<close>.
  Each range check returns before that deletion; any other exception leaves the handler.
  After a call of \<open>update_voice_settings\<close> that returns, the key is deleted, whatever
  the call returned.
\<close>

definition adjust_param_text :: "pystr \<Rightarrow> pystr \<Rightarrow> pystr \<Rightarrow> session \<Rightarrow> manager \<Rightarrow> world \<Rightarrow> outcome" where
  "adjust_param_text param_type voice_name txt s m w =
     (if param_type \<in> set numeric_params then
        (case py_float txt of
           None \<Rightarrow> returns [NotANumber] s m w
         | Some v \<Rightarrow>
             if param_type = lit ''speed'' \<and> (fless v f_0_5 \<or> fgreater v f_2_0)
               then returns [SpeedOutOfRange] s m w
             else if param_type = lit ''pitch'' \<and> (fless v f_0_5 \<or> fgreater v f_2_0)
               then returns [PitchOutOfRange] s m w
             else if param_type = lit ''volume'' \<and> (fless v f_0_1 \<or> fgreater v f_2_0)
               then returns [VolumeOutOfRange] s m w
             else
               (case update_voice_settings voice_name [(param_type, VFloat v)] m w of
                  (Inl e, m1, w1) \<Rightarrow>
                    if e = ValueError then returns [NotANumber] s m1 w1 else raises e [] s m1 w1
                | (Inr (success, msg), m1, w1) \<Rightarrow>
                    if success then
                      (case get_settings_keyboard m1 voice_name of
                         Some e \<Rightarrow> raises e [] s m1 w1
                       | None \<Rightarrow>
                           returns [ParamSet param_type v] (s\<lparr>adjusting_param := None\<rparr>) m1 w1)
                    else returns [Failure msg] (s\<lparr>adjusting_param := None\<rparr>) m1 w1))
      else if param_type = lit ''emotion'' then
        (let emotion = lower txt in
         if emotion \<notin> set valid_emotions then returns [InvalidEmotion] s m w
         else
           (case update_voice_settings voice_name [(lit ''emotion'', VStr emotion)] m w of
              (Inl e, m1, w1) \<Rightarrow>
                if e = ValueError then returns [NotANumber] s m1 w1 else raises e [] s m1 w1
            | (Inr (success, msg), m1, w1) \<Rightarrow>
                if success then
                  (case get_settings_keyboard m1 voice_name of
                     Some e \<Rightarrow> raises e [] s m1 w1
                   | None \<Rightarrow> returns [EmotionSet emotion] (s\<lparr>adjusting_param := None\<rparr>) m1 w1)
                else returns [Failure msg] (s\<lparr>adjusting_param := None\<rparr>) m1 w1))
      else returns [] (s\<lparr>adjusting_param := None\<rparr>) m w)"

text \<open>
  The registry update of a description edit (the four statements of the handler that
  follow the length check): the entry returned by \<open>get_voice_info\<close> is changed in place
  (\<open>TypeError\<close> when it is \<open>None\<close>), stored back under its name, and the configuration
  is saved. The result is the exception raised, if any.
\<close>

definition set_description ::
  "pystr \<Rightarrow> pystr \<Rightarrow> manager \<Rightarrow> world \<Rightarrow> exn option \<times> manager \<times> world" where
  "set_description voice_name description_new m w =
     (case get_voice_info m voice_name of
        None \<Rightarrow> (Some TypeError, m, w)
      | Some v \<Rightarrow>
          let m1 = m\<lparr>voices :=
                     AList.update voice_name (v\<lparr>description := description_new\<rparr>) (voices m)\<rparr>
          in (case save_config m1 w of
                (Some e, w1) \<Rightarrow> (Some e, m1, w1)
              | (None, w1) \<Rightarrow> (None, m1, w1)))"

text \<open>
  The branch for a pending description edit: the text is stripped and capped at 200
  characters, the description is set, and the session key is deleted after the reply.
\<close>

definition edit_description_text :: "pystr \<Rightarrow> pystr \<Rightarrow> session \<Rightarrow> manager \<Rightarrow> world \<Rightarrow> outcome" where
  "edit_description_text voice_name txt s m w =
     (let description_new = strip txt in
      if 200 < length description_new then returns [DescriptionTooLong] s m w
      else
        (case set_description voice_name description_new m w of
           (Some e, m1, w1) \<Rightarrow> raises e [] s m1 w1
         | (None, m1, w1) \<Rightarrow>
             returns [DescriptionUpdated voice_name] (s\<lparr>editing_description := None\<rparr>) m1 w1))"

text \<open>The skip words: the Russian word "propustit'" (skip), \<open>skip\<close> and \<open>-\<close>.\<close>

definition skip_tokens :: "pystr list" where
  "skip_tokens =
     [[1087, 1088, 1086, 1087, 1091, 1089, 1090, 1080, 1090, 1100], lit ''skip'', lit ''-'']"

definition voice_name_text :: "pystr \<Rightarrow> session \<Rightarrow> manager \<Rightarrow> world \<Rightarrow> outcome" where
  "voice_name_text txt s m w =
     (let voice_name = strip txt in
      if \<not> name_re_match voice_name then returns [InvalidNameFormat] s m w
      else if voice_name \<in> set (get_voice_list m) then returns [NameTaken] s m w
      else returns [AskDescription voice_name]
             (s\<lparr>new_voice_name := Some voice_name, awaiting_voice_name := False,
                awaiting_voice_description := True\<rparr>) m w)"

text \<open>
  The description step of the creation flow: no length check; a skip word gives the
  generated description; \<open>create_voice\<close> is called with the name and the description
  only, and the two session keys are reset whatever it returned.
\<close>

definition voice_description_text :: "pystr \<Rightarrow> session \<Rightarrow> manager \<Rightarrow> world \<Rightarrow> outcome" where
  "voice_description_text txt s m w =
     (case new_voice_name s of
        None \<Rightarrow> raises KeyError [] s m w
      | Some voice_name \<Rightarrow>
          let d0 = strip txt;
              d = (if lower d0 \<in> set skip_tokens then user_voice_prefix @ voice_name else d0)
          in (case create_voice voice_name None None d m w of
                (Inl e, m1, w1) \<Rightarrow> raises e [] s m1 w1
              | (Inr (success, msg), m1, w1) \<Rightarrow>
                  let s1 = s\<lparr>awaiting_voice_description := False, new_voice_name := None\<rparr>
                  in if success then
                       (case get_voice_settings_menu m1 voice_name of
                          Some e \<Rightarrow> raises e [] s m1 w1
                        | None \<Rightarrow> returns [VoiceCreated msg] s1 m1 w1)
                     else returns [Failure msg] s1 m1 w1))"

definition synthesize_text_handler :: "pystr \<Rightarrow> session \<Rightarrow> manager \<Rightarrow> world \<Rightarrow> outcome" where
  "synthesize_text_handler txt s m w =
     (let t = strip txt in
      if max_text_length m < length t then returns [TextTooLong] s m w
      else if length t < 2 then returns [TextTooShort] s m w
      else returns [ChooseVoice (length t)] (s\<lparr>pending_text := Some t\<rparr>) m w)"

text \<open>The handler tests the session keys in this order and runs the first branch.\<close>

definition handle_text_input :: "pystr \<Rightarrow> session \<Rightarrow> manager \<Rightarrow> world \<Rightarrow> outcome" where
  "handle_text_input txt s m w =
     (case adjusting_param s of
        Some (param_type, voice_name) \<Rightarrow> adjust_param_text param_type voice_name txt s m w
      | None \<Rightarrow>
          (case editing_description s of
             Some voice_name \<Rightarrow> edit_description_text voice_name txt s m w
           | None \<Rightarrow>
               if awaiting_voice_name s then voice_name_text txt s m w
               else if awaiting_voice_description s then voice_description_text txt s m w
               else if pending_text s \<noteq> None then synthesize_text_handler txt s m w
               else returns [SuggestSynthesis] s m w))"

subsection \<open>button_callback\<close>

text \<open>
  \<open>int(s)\<close> for decimal text: white space, a sign, digits with single underscores; the
  digits are those of every script, as for \<open>float\<close>.
\<close>

definition py_int :: "pystr \<Rightarrow> int option" where
  "py_int s =
     (case take_sign (strip s) of (neg, r) \<Rightarrow>
        (case digitpart r of
           Some (ds, []) \<Rightarrow> Some (if neg then - int (digits_value ds) else int (digits_value ds))
         | _ \<Rightarrow> None))"

text \<open>\<open>parts[i]\<close> raises \<open>IndexError\<close> beyond the end.\<close>

definition part :: "pystr list \<Rightarrow> nat \<Rightarrow> pystr option" where
  "part parts i = (if i < length parts then Some (parts ! i) else None)"

definition param_names :: "pystr list" where
  "param_names = [lit ''speed'', lit ''pitch'', lit ''volume'', lit ''emotion'', lit ''language'']"

text \<open>
  The \<open>adjust_\<close> button: the session key is stored first; the current value is then read
  through \<open>get_voice_info(voice_name)['settings']\<close> (\<open>TypeError\<close> for a missing voice),
  and the prompt for a numeric parameter looks the type up in \<open>param_names\<close>.
\<close>

definition adjust_button :: "pystr \<Rightarrow> session \<Rightarrow> manager \<Rightarrow> world \<Rightarrow> outcome" where
  "adjust_button data s m w =
     (let parts = split_on 95 data in
      case part parts 1 of
        None \<Rightarrow> raises IndexError [Answered] s m w
      | Some param_type \<Rightarrow>
          let voice_name = join (lit ''_'') (drop 2 parts);
              s1 = s\<lparr>adjusting_param := Some (param_type, voice_name)\<rparr>
          in (case get_voice_info m voice_name of
                None \<Rightarrow> raises TypeError [Answered] s1 m w
              | Some v \<Rightarrow>
                  if param_type = lit ''emotion''
                    then returns [Answered, ShowEmotionKeyboard voice_name] s1 m w
                  else if param_type = lit ''language''
                    then returns [Answered, ShowLanguageKeyboard voice_name] s1 m w
                  else if param_type \<in> set param_names
                    then returns [Answered, AskParamValue param_type] s1 m w
                  else raises KeyError [Answered] s1 m w))"

text \<open>
  The \<open>set_emotion_\<close> and \<open>set_lang_\<close> buttons take the third and fourth field of the
  data, so a voice name with an underscore is cut at it.
\<close>

definition set_choice_button ::
  "pystr \<Rightarrow> (pystr \<Rightarrow> reply) \<Rightarrow> pystr \<Rightarrow> session \<Rightarrow> manager \<Rightarrow> world \<Rightarrow> outcome" where
  "set_choice_button key chosen data s m w =
     (let parts = split_on 95 data in
      case (part parts 2, part parts 3) of
        (Some voice_name, Some choice) \<Rightarrow>
          (case update_voice_settings voice_name [(key, VStr choice)] m w of
             (Inl e, m1, w1) \<Rightarrow> raises e [Answered] s m1 w1
           | (Inr (success, msg), m1, w1) \<Rightarrow>
               if success then
                 (case get_settings_keyboard m1 voice_name of
                    Some e \<Rightarrow> raises e [Answered, chosen choice] s m1 w1
                  | None \<Rightarrow> returns [Answered, chosen choice, ShowSettings voice_name] s m1 w1)
               else returns [Answered, Alert msg] s m1 w1)
      | _ \<Rightarrow> raises IndexError [Answered] s m w)"

text \<open>
  The prefixes are tested in the order of the source; the first that matches decides.
  The voice name is what is left of the data after every occurrence of the prefix text
  is removed. The branch for \<open>back_to_main\<close> edits the message and returns.
\<close>

definition button_callback :: "pystr \<Rightarrow> session \<Rightarrow> manager \<Rightarrow> world \<Rightarrow> outcome" where
  "button_callback data s m w =
     (if startswith data (lit ''voices_page_'') then
        (case py_int (remove_all (lit ''voices_page_'') data) of
           None \<Rightarrow> raises ValueError [Answered] s m w
         | Some page \<Rightarrow> returns [Answered, ShowVoices page] s m w)
      else if startswith data (lit ''select_voice_'') then
        (let voice_name = remove_all (lit ''select_voice_'') data in
         case set_default_voice voice_name m w of
           (Inl e, m1, w1) \<Rightarrow> raises e [Answered] s m1 w1
         | (Inr (success, msg), m1, w1) \<Rightarrow>
             if success then
               (case get_voice_settings_menu m1 voice_name of
                  Some e \<Rightarrow> raises e [Answered] s m1 w1
                | None \<Rightarrow> returns [Answered, VoiceSelected voice_name] s m1 w1)
             else returns [Answered, Alert msg] s m1 w1)
      else if startswith data (lit ''voice_menu_'') then
        (let voice_name = remove_all (lit ''voice_menu_'') data in
         case get_voice_settings_menu m voice_name of
           Some e \<Rightarrow> raises e [Answered] s m w
         | None \<Rightarrow> returns [Answered, ShowVoiceMenu voice_name] s m w)
      else if startswith data (lit ''settings_'') then
        (let voice_name = remove_all (lit ''settings_'') data in
         case get_settings_keyboard m voice_name of
           Some e \<Rightarrow> raises e [Answered] s m w
         | None \<Rightarrow> returns [Answered, ShowSettings voice_name] s m w)
      else if startswith data (lit ''adjust_'') then adjust_button data s m w
      else if startswith data (lit ''set_emotion_'')
        then set_choice_button (lit ''emotion'') EmotionChosen data s m w
      else if startswith data (lit ''set_lang_'')
        then set_choice_button (lit ''language'') LanguageChosen data s m w
      else if startswith data (lit ''save_settings_'') then
        (let voice_name = remove_all (lit ''save_settings_'') data in
         case get_voice_settings_menu m voice_name of
           Some e \<Rightarrow> raises e [Answered] s m w
         | None \<Rightarrow> returns [Answered, SettingsSaved voice_name] s m w)
      else if startswith data (lit ''clone_this_'') then
        (let voice_name = remove_all (lit ''clone_this_'') data in
         returns [Answered, AskCloneAudio voice_name] (s\<lparr>cloning_voice := Some voice_name\<rparr>) m w)
      else if startswith data (lit ''edit_desc_'') then
        (let voice_name = remove_all (lit ''edit_desc_'') data;
             s1 = s\<lparr>editing_description := Some voice_name\<rparr>
         in case get_voice_info m voice_name of
              None \<Rightarrow> raises AttributeError [Answered] s1 m w
            | Some v \<Rightarrow> returns [Answered, AskNewDescription voice_name] s1 m w)
      else if startswith data (lit ''delete_confirm_'') then
        (let voice_name = remove_all (lit ''delete_confirm_'') data in
         if voice_name = DEFAULT_VOICE_NAME then returns [Answered, DefaultNotDeletable] s m w
         else returns [Answered, ConfirmDelete voice_name] s m w)
      else if startswith data (lit ''delete_voice_'') then
        (let voice_name = remove_all (lit ''delete_voice_'') data in
         case delete_voice voice_name m w of
           (Inl e, m1, w1) \<Rightarrow> raises e [Answered] s m1 w1
         | (Inr (success, msg), m1, w1) \<Rightarrow>
             if success then returns [Answered, DeletedShowVoices msg] s m1 w1
             else returns [Answered, Alert msg] s m1 w1)
      else if data = lit ''create_new_voice''
        then returns [Answered, AskVoiceName] (s\<lparr>awaiting_voice_name := True\<rparr>) m w
      else if data = lit ''back_to_main'' then returns [Answered, ShowMainMenu] s m w
      else if data = lit ''back_to_voices'' then returns [Answered, ShowVoices 0] s m w
      else if data = lit ''noop'' then returns [Answered, Answered] s m w
      else returns [Answered] s m w)"

subsection \<open>handle_audio\<close>

text \<open>
  An incoming message: its text (\<open>None\<close> for a message that carries media) and at most
  one attachment; a document has an optional MIME type.
\<close>

datatype attachment = VoiceNote | AudioFile | Document "pystr option"

record tg_message =
  msg_text :: "pystr option"
  attached :: "attachment option"

text \<open>\<open>os.remove(p)\<close>: \<open>OSError\<close> when there is no such file.\<close>

definition os_remove :: "pystr \<Rightarrow> world \<Rightarrow> exn + world" where
  "os_remove p w =
     (case files w p of None \<Rightarrow> Inl OSError | Some b \<Rightarrow> Inr (w\<lparr>files := (files w)(p := None)\<rparr>))"

text \<open>\<open>if os.path.exists(p): os.remove(p)\<close>.\<close>

definition remove_if_exists :: "pystr \<Rightarrow> world \<Rightarrow> exn + world" where
  "remove_if_exists p w = (if path_exists w p then os_remove p w else Inr w)"

definition write_file :: "pystr \<Rightarrow> nat list \<Rightarrow> world \<Rightarrow> world" where
  "write_file p b w = w\<lparr>files := (files w)(p := Some b)\<rparr>"

text \<open>
  The first branch, for a session that awaits the sample. The duration is probed inside
  an inner \<open>try\<close> whose handler only logs a warning; the two range checks remove the
  file and return. After the inner \<open>try\<close> the session keys are stored and then the reply
  is formatted with the variable \<open>duration\<close>: when the probe raised, that variable was
  never assigned, the formatting raises \<open>UnboundLocalError\<close>, and the handler of the
  outer \<open>try\<close> removes the file and replies with the error text. An \<open>os.remove\<close> that
  raises inside the inner \<open>try\<close> is caught there as well, with \<open>duration\<close> assigned.
\<close>

definition accepted :: "pystr \<Rightarrow> session \<Rightarrow> session" where
  "accepted temp_path s =
     s\<lparr>voice_audio_path := Some temp_path, awaiting_voice_audio := False,
       awaiting_cloned_voice_name := True\<rparr>"

definition outer_except :: "pystr \<Rightarrow> reply list \<Rightarrow> session \<Rightarrow> manager \<Rightarrow> world \<Rightarrow> outcome" where
  "outer_except temp_path rs s m w =
     (case remove_if_exists temp_path w of
        Inl e \<Rightarrow> raises e rs s m w
      | Inr w1 \<Rightarrow> returns (rs @ [AudioError]) s m w1)"

definition intake_audio :: "tg_message \<Rightarrow> session \<Rightarrow> manager \<Rightarrow> world \<Rightarrow> outcome" where
  "intake_audio msg s m w =
     (if \<not> (case attached msg of
               Some VoiceNote \<Rightarrow> True
             | Some AudioFile \<Rightarrow> True
             | Some (Document (Some t)) \<Rightarrow> t \<noteq> [] \<and> startswith t (lit ''audio/'')
             | _ \<Rightarrow> False)
      then returns [NoAudioFile] s m w
      else
        let temp_path = path_join TEMP_DIR (lit ''voice_'' @ now_compact w @ lit ''.ogg'') in
        (case download w of
           None \<Rightarrow> outer_except temp_path [Downloading] s m w
         | Some b \<Rightarrow>
             let w1 = write_file temp_path b w in
             (case probe w1 of
                None \<Rightarrow> outer_except temp_path [Downloading] (accepted temp_path s) m w1
              | Some duration \<Rightarrow>
                  if fgreater duration (max_voice_duration m) then
                    (case os_remove temp_path w1 of
                       Inr w2 \<Rightarrow> returns [Downloading, AudioTooLong] s m w2
                     | Inl e \<Rightarrow>
                         returns [Downloading, AudioReceived duration] (accepted temp_path s) m w1)
                  else if fless duration f_1_0 then
                    (case os_remove temp_path w1 of
                       Inr w2 \<Rightarrow> returns [Downloading, AudioTooShort] s m w2
                     | Inl e \<Rightarrow>
                         returns [Downloading, AudioReceived duration] (accepted temp_path s) m w1)
                  else returns [Downloading, AudioReceived duration] (accepted temp_path s) m w1)))"

text \<open>
  The name step of the cloning flow lives in the audio handler and reads
  \<open>update.message.text.strip()\<close>: \<open>AttributeError\<close> when the message has no text.
\<close>

definition cloned_name_step :: "tg_message \<Rightarrow> session \<Rightarrow> manager \<Rightarrow> world \<Rightarrow> outcome" where
  "cloned_name_step msg s m w =
     (case msg_text msg of
        None \<Rightarrow> raises AttributeError [] s m w
      | Some txt \<Rightarrow>
          let voice_name = strip txt in
          if \<not> name_re_match voice_name then returns [InvalidNameFormat] s m w
          else if voice_name \<in> set (get_voice_list m) then returns [NameTaken] s m w
          else returns [AskClonedDescription voice_name]
                 (s\<lparr>cloned_voice_name := Some voice_name, awaiting_cloned_voice_name := False,
                    awaiting_cloned_voice_description := True\<rparr>) m w)"

text \<open>
  The description step of the cloning flow: no length check; a skip word gives the
  generated description; the buffered sample must still exist; after \<open>clone_voice\<close> the
  sample is removed on success and the three session keys are reset in both cases.
\<close>

definition cloned_description_step :: "tg_message \<Rightarrow> session \<Rightarrow> manager \<Rightarrow> world \<Rightarrow> outcome" where
  "cloned_description_step msg s m w =
     (case cloned_voice_name s of
        None \<Rightarrow> raises KeyError [] s m w
      | Some voice_name \<Rightarrow>
          (case msg_text msg of
             None \<Rightarrow> raises AttributeError [] s m w
           | Some txt \<Rightarrow>
               let d0 = strip txt;
                   d = (if lower d0 \<in> set skip_tokens then cloned_voice_prefix @ voice_name else d0)
               in (case voice_audio_path s of
                     None \<Rightarrow> returns [AudioFileMissing] s m w
                   | Some audio_path \<Rightarrow>
                       if audio_path = [] \<or> \<not> path_exists w audio_path
                       then returns [AudioFileMissing] s m w
                       else
                         (case clone_voice voice_name audio_path [] d m w of
                            (Inl e, m1, w1) \<Rightarrow> raises e [CloningStarted] s m1 w1
                          | (Inr (success, msg'), m1, w1) \<Rightarrow>
                              let s1 = s\<lparr>awaiting_cloned_voice_description := False,
                                         cloned_voice_name := None, voice_audio_path := None\<rparr>
                              in if success then
                                   (case remove_if_exists audio_path w1 of
                                      Inl e \<Rightarrow> raises e [CloningStarted] s m1 w1
                                    | Inr w2 \<Rightarrow> returns [CloningStarted, CloneDone msg'] s1 m1 w2)
                                 else returns [CloningStarted, Failure msg'] s1 m1 w1))))"

text \<open>
  The branch of the "clone this voice" button: only the upper bound of the duration is
  checked, a failing probe is passed over, and the sample is cloned at once under the
  name stored by the button.
\<close>

definition clone_this_run :: "pystr \<Rightarrow> pystr \<Rightarrow> session \<Rightarrow> manager \<Rightarrow> world \<Rightarrow> outcome" where
  "clone_this_run voice_name temp_path s m w =
     (case clone_voice voice_name temp_path [] [] m w of
        (Inl e, m1, w1) \<Rightarrow> returns [CloningStarted, AudioError] s m1 w1
      | (Inr (success, msg'), m1, w1) \<Rightarrow>
          (case remove_if_exists temp_path w1 of
             Inl e \<Rightarrow>
               returns [CloningStarted, if success then CloneDone msg' else Failure msg',
                        AudioError] s m1 w1
           | Inr w2 \<Rightarrow>
               returns [CloningStarted, if success then CloneDone msg' else Failure msg']
                 (s\<lparr>cloning_voice := None\<rparr>) m1 w2))"

definition clone_this_step :: "pystr \<Rightarrow> tg_message \<Rightarrow> session \<Rightarrow> manager \<Rightarrow> world \<Rightarrow> outcome" where
  "clone_this_step voice_name msg s m w =
     (case attached msg of
        None \<Rightarrow> returns [NoAudioFile] s m w
      | Some (Document None) \<Rightarrow> raises AttributeError [] s m w
      | Some att \<Rightarrow>
          if (case att of Document (Some t) \<Rightarrow> \<not> startswith t (lit ''audio/'') | _ \<Rightarrow> False)
          then returns [NoAudioFile] s m w
          else
            let temp_path = path_join TEMP_DIR (lit ''voice_'' @ now_compact w @ lit ''.ogg'') in
            (case download w of
               None \<Rightarrow> returns [AudioError] s m w
             | Some b \<Rightarrow>
                 let w1 = write_file temp_path b w in
                 if (case probe w1 of Some duration \<Rightarrow> fgreater duration (max_voice_duration m)
                     | None \<Rightarrow> False)
                 then (case os_remove temp_path w1 of
                         Inr w2 \<Rightarrow> returns [AudioTooLong] s m w2
                       | Inl e \<Rightarrow> clone_this_run voice_name temp_path s m w1)
                 else clone_this_run voice_name temp_path s m w1))"

definition handle_audio :: "tg_message \<Rightarrow> session \<Rightarrow> manager \<Rightarrow> world \<Rightarrow> outcome" where
  "handle_audio msg s m w =
     (if awaiting_voice_audio s then intake_audio msg s m w
      else if awaiting_cloned_voice_name s then cloned_name_step msg s m w
      else if awaiting_cloned_voice_description s then cloned_description_step msg s m w
      else (case cloning_voice s of
              Some voice_name \<Rightarrow> clone_this_step voice_name msg s m w
            | None \<Rightarrow> returns [AudioOnlyWhenCloning] s m w))"

subsection \<open>synthesize and synthesize_and_send\<close>

text \<open>
  \<open>synthesize\<close> returns the path of the audio file it wrote, or \<open>None\<close>: when the
  pipeline was never loaded, and when anything inside its \<open>try\<close> raises (the pipeline,
  the write, or the subscript of a voice entry that is \<open>None\<close> because neither the
  requested voice nor \<open>default\<close> exists).
\<close>

definition synthesize :: "pystr \<Rightarrow> pystr \<Rightarrow> manager \<Rightarrow> world \<Rightarrow> pystr option \<times> world" where
  "synthesize txt voice_name m w =
     (if \<not> tts_loaded w then (None, w)
      else
        let name1 = (if voice_name \<noteq> [] then voice_name else default_voice m);
            voice_info = (case get_voice_info m name1 of
                            Some v \<Rightarrow> Some v
                          | None \<Rightarrow> get_voice_info m DEFAULT_VOICE_NAME)
        in (case voice_info of
              None \<Rightarrow> (None, w)
            | Some v \<Rightarrow>
                (case pipeline_out w of
                   None \<Rightarrow> (None, w)
                 | Some audio \<Rightarrow>
                     let output_path =
                           path_join TEMP_DIR
                             (lit ''tts_'' @ now_compact w @ lit ''.'' @ audio_format m)
                     in (Some output_path, write_file output_path audio w))))"

text \<open>
  \<open>synthesize_and_send\<close>: nothing happens without a pending text. When \<open>synthesize\<close>
  gives no file, the error is reported and the function returns at once. Otherwise the
  file is sent (unless it is larger than 50 MiB), removed, and only then
  \<open>pending_text\<close> is deleted; an exception on that way is reported and ends the call.
\<close>

definition synthesize_and_send :: "pystr \<Rightarrow> session \<Rightarrow> manager \<Rightarrow> world \<Rightarrow> outcome" where
  "synthesize_and_send voice_name s m w =
     (case pending_text s of
        None \<Rightarrow> returns [] s m w
      | Some txt \<Rightarrow>
          if txt = [] then returns [] s m w
          else
            (case synthesize txt voice_name m w of
               (None, w1) \<Rightarrow> returns [Generating voice_name, GenerationError] s m w1
             | (Some audio_path, w1) \<Rightarrow>
                 if audio_path = [] \<or> \<not> path_exists w1 audio_path
                 then returns [Generating voice_name, GenerationError] s m w1
                 else
                   (case files w1 audio_path of
                      None \<Rightarrow> returns [Generating voice_name, SendError] s m w1
                    | Some audio \<Rightarrow>
                        if 50 * 1024 * 1024 < length audio then
                          (case os_remove audio_path w1 of
                             Inl e \<Rightarrow> returns [Generating voice_name, FileTooBig, SendError] s m w1
                           | Inr w2 \<Rightarrow>
                               returns [Generating voice_name, FileTooBig]
                                 (s\<lparr>pending_text := None\<rparr>) m w2)
                        else if \<not> send_ok w1
                          then returns [Generating voice_name, SendError] s m w1
                        else
                          (case os_remove audio_path w1 of
                             Inl e \<Rightarrow>
                               returns [Generating voice_name, VoiceSent voice_name, SendError] s m w1
                           | Inr w2 \<Rightarrow>
                               returns [Generating voice_name, VoiceSent voice_name]
                                 (s\<lparr>pending_text := None\<rparr>) m w2))))"

section \<open>Well-formed registries and sample states\<close>

text \<open>
  The registry invariant: the names are distinct (they are the keys of a dictionary), a
  voice named \<open>default\<close> exists, and the default pointer names an existing voice.
\<close>

definition registry_ok :: "manager \<Rightarrow> bool" where
  "registry_ok m \<longleftrightarrow>
     distinct (get_voice_list m) \<and> has_voice m DEFAULT_VOICE_NAME \<and> has_voice m (default_voice m)"

text \<open>Every settings address held by an entry has been allocated.\<close>

definition refs_ok :: "manager \<Rightarrow> bool" where
  "refs_ok m \<longleftrightarrow> list_all (\<lambda>(n, v). settings v < next_ref m) (voices m)"

text \<open>A call returned \<open>(True, message)\<close>.\<close>

definition succeeded :: "(exn + bool \<times> message) \<Rightarrow> bool" where
  "succeeded r = (case r of Inr (b, msg) \<Rightarrow> b | Inl e \<Rightarrow> False)"

text \<open>
  How a registry call relates to the store: a call that succeeds has written the
  configuration it leaves in memory, and only a store without fault lets a call
  succeed; a call that does not succeed has left the file as it was or cut short; and
  a call refused by its check of the name changes nothing at all.
\<close>

definition write_through :: "manager \<Rightarrow> world \<Rightarrow> result \<Rightarrow> bool" where
  "write_through m w x =
     (case x of (r, m', w') \<Rightarrow>
        (succeeded r \<longrightarrow> store_ok w \<and> disk w' = Saved (config_json m')) \<and>
        (\<not> succeeded r \<longrightarrow> disk w' = disk w \<or> disk w' = Truncated) \<and>
        (r = Inr (False, AlreadyExists) \<or> r = Inr (False, NotFound)
           \<or> r = Inr (False, IsDefaultVoice) \<longrightarrow> m' = m \<and> w' = w))"

text \<open>
  \<open>DEFAULT_CONFIG\<close>, with the time stamp taken when the module is loaded: one voice
  \<open>default\<close> (its description is the Russian text "Golos po umolchaniyu", default
  voice), which is also the default pointer.
\<close>

definition default_settings :: sdict where
  "default_settings =
     [(lit ''speed'', VFloat f_1_0), (lit ''pitch'', VFloat f_1_0), (lit ''volume'', VFloat f_1_0),
      (lit ''emotion'', VStr (lit ''neutral'')), (lit ''language'', VStr (lit ''ru''))]"

definition default_voice_entry :: "pystr \<Rightarrow> ref voice" where
  "default_voice_entry ts =
     \<lparr>model = lit ''Qwen/Qwen3-TTS-12Hz-1.7B-Base'', settings = 0, cloned = False,
      cloned_from = None, reference_text = None, created_at = ts,
      description =
        [1043, 1086, 1083, 1086, 1089, 32, 1087, 1086, 32, 1091, 1084, 1086, 1083, 1095,
         1072, 1085, 1080, 1102]\<rparr>"

definition DEFAULT_CONFIG :: "pystr \<Rightarrow> manager" where
  "DEFAULT_CONFIG ts =
     \<lparr>voices = [(DEFAULT_VOICE_NAME, default_voice_entry ts)],
      default_voice = DEFAULT_VOICE_NAME,
      max_voice_duration = Finite 30,
      max_text_length = 1000,
      audio_format = lit ''wav'',
      objs = (\<lambda>a. [])(0 := default_settings),
      next_ref = 1\<rparr>"

text \<open>
  A world in which every call succeeds; the same world with a configuration file that
  cannot be opened for writing; and with one whose write breaks off.
\<close>

definition calm_world :: world where
  "calm_world =
     \<lparr>disk = NoFile, store_fault = None,
      files = (\<lambda>p. None)(lit ''temp_audio/sample.ogg'' := Some [79, 103, 103]),
      dirs = {}, makedirs_ok = True, copy_ok = True, rmtree_ok = True,
      now = lit ''2026-01-01 12:00:00'', now_compact = lit ''20260101_120000'',
      download = Some [79, 103, 103], probe = Some (Finite 5), tts_loaded = True,
      pipeline_out = Some [82, 73, 70, 70], send_ok = True\<rparr>"

definition readonly_world :: world where
  "readonly_world = calm_world\<lparr>store_fault := Some OpenFails\<rparr>"

text \<open>
  A registry with a second voice \<open>abc\<close> of speed 1.5 that the default pointer names, as
  \<open>create_voice\<close>, \<open>update_voice_settings\<close> and \<open>set_default_voice\<close> produce it.
\<close>

definition abc_settings :: sdict where
  "abc_settings =
     [(lit ''speed'', VFloat (Finite (3 / 2))), (lit ''pitch'', VFloat f_1_0),
      (lit ''volume'', VFloat f_1_0), (lit ''emotion'', VStr (lit ''neutral'')),
      (lit ''language'', VStr (lit ''ru''))]"

definition abc_entry :: "ref voice" where
  "abc_entry =
     \<lparr>model = lit ''Qwen/Qwen3-TTS-12Hz-1.7B-Base'', settings = 1, cloned = False,
      cloned_from = None, reference_text = None, created_at = lit ''2026-01-01 11:00:00'',
      description = user_voice_prefix @ lit ''abc''\<rparr>"

definition abc_default :: manager where
  "abc_default =
     \<lparr>voices = [(DEFAULT_VOICE_NAME, default_voice_entry (lit ''2026-01-01 10:00:00'')),
                (lit ''abc'', abc_entry)],
      default_voice = lit ''abc'',
      max_voice_duration = Finite 30,
      max_text_length = 1000,
      audio_format = lit ''wav'',
      objs = (\<lambda>a. [])(0 := default_settings, 1 := abc_settings),
      next_ref = 2\<rparr>"

definition start_config :: manager where
  "start_config = DEFAULT_CONFIG (lit ''2026-01-01 10:00:00'')"

definition full_disk_world :: world where
  "full_disk_world =
     calm_world\<lparr>disk := Saved (config_json start_config), store_fault := Some WriteFails\<rparr>"

section \<open>delete_voice\<close>

lemma has_voice_map_of: "has_voice m n \<longleftrightarrow> map_of (voices m) n \<noteq> None"
  by (simp add: has_voice_def get_voice_list_def map_of_eq_None_iff)

lemma delete_voice_not_found:
  "\<not> has_voice m n \<Longrightarrow> delete_voice n m w = (Inr (False, NotFound), m, w)"
  by (simp add: delete_voice_def)

lemma delete_voice_literal_default:
  "has_voice m DEFAULT_VOICE_NAME \<Longrightarrow>
   delete_voice DEFAULT_VOICE_NAME m w = (Inr (False, IsDefaultVoice), m, w)"
  by (simp add: delete_voice_def)

lemma delete_voice_registry:
  assumes "has_voice m n" and "n \<noteq> DEFAULT_VOICE_NAME"
  shows "fst (snd (delete_voice n m w)) =
           m\<lparr>voices := AList.delete n (voices m),
             default_voice := (if default_voice m = n then DEFAULT_VOICE_NAME else default_voice m)\<rparr>"
  using assms
  by (auto simp: delete_voice_def Let_def save_config_def rmtree_def
      split: prod.splits sum.splits option.splits if_splits)

lemma delete_voice_result:
  assumes "has_voice m n" and "n \<noteq> DEFAULT_VOICE_NAME"
  shows "fst (delete_voice n m w) =
           (case store_fault w of None \<Rightarrow> Inr (True, Deleted n) | Some f \<Rightarrow> Inl (fault_exn f))"
  using assms
  by (auto simp: delete_voice_def Let_def save_config_def rmtree_def
      split: prod.splits sum.splits option.splits if_splits)

lemma delete_voice_disk:
  assumes "has_voice m n" and "n \<noteq> DEFAULT_VOICE_NAME"
  shows "disk (snd (snd (delete_voice n m w))) =
           (case store_fault w of
              None \<Rightarrow> Saved (config_json (fst (snd (delete_voice n m w))))
            | Some f \<Rightarrow> after_fault f (disk w))"
  using assms
  by (auto simp: delete_voice_def Let_def save_config_def rmtree_def
      split: prod.splits sum.splits option.splits if_splits)

text \<open>
  C1, as the code has it. \<open>delete_voice\<close> answers \<open>NotFound\<close> for a name that is not
  present, and \<open>IsDefaultVoice\<close> for the present literal name \<open>default\<close>; in both cases
  the registry and the world are unchanged. Every other present name, the one the
  default pointer holds included, is removed: the other entries and the settings objects
  stay, the pointer moves to \<open>default\<close> when it named the removed voice, and the call
  returns success with the new configuration on disk when the store can be written, and
  raises the exception of the failed write when it cannot.
\<close>

theorem delete_voice_cases:
  assumes "delete_voice n m w = (r, m', w')"
  shows "(\<not> has_voice m n \<longrightarrow> r = Inr (False, NotFound) \<and> m' = m \<and> w' = w) \<and>
         (has_voice m n \<and> n = DEFAULT_VOICE_NAME \<longrightarrow>
            r = Inr (False, IsDefaultVoice) \<and> m' = m \<and> w' = w) \<and>
         (has_voice m n \<and> n \<noteq> DEFAULT_VOICE_NAME \<longrightarrow>
            get_voice_list m' = removeAll n (get_voice_list m) \<and>
            \<not> has_voice m' n \<and>
            (\<forall>k. k \<noteq> n \<longrightarrow> get_voice_info m' k = get_voice_info m k) \<and>
            default_voice m' = (if default_voice m = n then DEFAULT_VOICE_NAME else default_voice m) \<and>
            objs m' = objs m \<and>
            (store_ok w \<longrightarrow> r = Inr (True, Deleted n) \<and> disk w' = Saved (config_json m')) \<and>
            (\<forall>f. store_fault w = Some f \<longrightarrow> r = Inl (fault_exn f)))"
proof -
  have A: "r = Inr (False, NotFound) \<and> m' = m \<and> w' = w" if "\<not> has_voice m n"
    using delete_voice_not_found [OF that, of w] assms by simp
  have B: "r = Inr (False, IsDefaultVoice) \<and> m' = m \<and> w' = w"
    if a: "has_voice m n \<and> n = DEFAULT_VOICE_NAME"
  proof -
    from a have "has_voice m DEFAULT_VOICE_NAME" by auto
    from delete_voice_literal_default [OF this, of w] a assms show ?thesis by auto
  qed
  have C: "get_voice_list m' = removeAll n (get_voice_list m) \<and>
            \<not> has_voice m' n \<and>
            (\<forall>k. k \<noteq> n \<longrightarrow> get_voice_info m' k = get_voice_info m k) \<and>
            default_voice m' = (if default_voice m = n then DEFAULT_VOICE_NAME else default_voice m) \<and>
            objs m' = objs m \<and>
            (store_ok w \<longrightarrow> r = Inr (True, Deleted n) \<and> disk w' = Saved (config_json m')) \<and>
            (\<forall>f. store_fault w = Some f \<longrightarrow> r = Inl (fault_exn f))"
    if a: "has_voice m n \<and> n \<noteq> DEFAULT_VOICE_NAME"
  proof -
    from a have h: "has_voice m n" and d: "n \<noteq> DEFAULT_VOICE_NAME" by simp_all
    have reg: "m' = m\<lparr>voices := AList.delete n (voices m),
               default_voice := (if default_voice m = n then DEFAULT_VOICE_NAME else default_voice m)\<rparr>"
      using delete_voice_registry [OF h d, of w] assms by simp
    have res: "r = (case store_fault w of None \<Rightarrow> Inr (True, Deleted n) | Some f \<Rightarrow> Inl (fault_exn f))"
      using delete_voice_result [OF h d, of w] assms by simp
    have dsk: "disk w' = (case store_fault w of None \<Rightarrow> Saved (config_json m')
                          | Some f \<Rightarrow> after_fault f (disk w))"
      using delete_voice_disk [OF h d, of w] assms by (auto split: option.splits)
    have c1: "get_voice_list m' = removeAll n (get_voice_list m)"
      by (simp add: reg get_voice_list_def delete_keys)
    have c2: "\<not> has_voice m' n"
      by (simp add: reg has_voice_map_of delete_conv)
    have c3: "\<forall>k. k \<noteq> n \<longrightarrow> get_voice_info m' k = get_voice_info m k"
      by (simp add: reg get_voice_info_def delete_conv)
    have c4: "default_voice m' = (if default_voice m = n then DEFAULT_VOICE_NAME else default_voice m)"
      by (simp add: reg)
    have c5: "objs m' = objs m" by (simp add: reg)
    have c6: "store_ok w \<longrightarrow> r = Inr (True, Deleted n) \<and> disk w' = Saved (config_json m')"
      using res dsk by (simp add: store_ok_def)
    have c7: "\<forall>f. store_fault w = Some f \<longrightarrow> r = Inl (fault_exn f)"
      using res by simp
    show ?thesis using c1 c2 c3 c4 c5 c6 c7 by blast
  qed
  show ?thesis using A B C by blast
qed


text \<open>The definitions that evaluate the sample states.\<close>

lemmas sample_defs =
  lit_def has_voice_def get_voice_list_def get_voice_info_def DEFAULT_VOICE_NAME_def
  abc_default_def start_config_def DEFAULT_CONFIG_def calm_world_def readonly_world_def
  full_disk_world_def

text \<open>
  C1 as stated fails: with the default pointer on \<open>abc\<close>, deleting the name the pointer
  holds succeeds and removes the voice; it is not refused with \<open>IsDefaultVoice\<close>.
\<close>

theorem delete_current_default_counterexample:
  "default_voice abc_default = lit ''abc'' \<and>
   fst (delete_voice (default_voice abc_default) abc_default calm_world)
     = Inr (True, Deleted (lit ''abc'')) \<and>
   fst (delete_voice (default_voice abc_default) abc_default calm_world)
     \<noteq> Inr (False, IsDefaultVoice) \<and>
   get_voice_list abc_default = [lit ''default'', lit ''abc''] \<and>
   get_voice_list (fst (snd (delete_voice (default_voice abc_default) abc_default calm_world)))
     = [lit ''default'']"
  by (simp add: sample_defs delete_voice_def Let_def save_config_def store_ok_def fault_exn_def after_fault_def path_exists_def
      path_join_def startswith_def VOICE_LIBRARY_DIR_def)

text \<open>The three cases of C1 on sample registries.\<close>

theorem delete_voice_cases_witness:
  "delete_voice (lit ''zzz'') start_config calm_world
     = (Inr (False, NotFound), start_config, calm_world) \<and>
   delete_voice (lit ''default'') start_config calm_world
     = (Inr (False, IsDefaultVoice), start_config, calm_world) \<and>
   has_voice abc_default (lit ''abc'') \<and> lit ''abc'' \<noteq> DEFAULT_VOICE_NAME \<and> store_ok calm_world \<and>
   fst (delete_voice (lit ''abc'') abc_default calm_world) = Inr (True, Deleted (lit ''abc'')) \<and>
   get_voice_list (fst (snd (delete_voice (lit ''abc'') abc_default calm_world))) = [lit ''default''] \<and>
   default_voice (fst (snd (delete_voice (lit ''abc'') abc_default calm_world))) = lit ''default''"
proof -
  let ?A = "delete_voice (lit ''zzz'') start_config calm_world"
  let ?B = "delete_voice (lit ''default'') start_config calm_world"
  let ?C = "delete_voice (lit ''abc'') abc_default calm_world"
  have a: "\<not> has_voice start_config (lit ''zzz'')" by (simp add: sample_defs)
  have b: "has_voice start_config (lit ''default'') \<and> lit ''default'' = DEFAULT_VOICE_NAME"
    by (simp add: sample_defs)
  have c: "has_voice abc_default (lit ''abc'') \<and> lit ''abc'' \<noteq> DEFAULT_VOICE_NAME"
    by (simp add: sample_defs)
  have s: "store_ok calm_world" by (simp add: calm_world_def store_ok_def)
  have l: "removeAll (lit ''abc'') (get_voice_list abc_default) = [lit ''default'']"
    by (simp add: sample_defs)
  have d: "default_voice abc_default = lit ''abc''" by (simp add: abc_default_def)
  have pa: "?A = (fst ?A, fst (snd ?A), snd (snd ?A))" by simp
  have pb: "?B = (fst ?B, fst (snd ?B), snd (snd ?B))" by simp
  have pc: "?C = (fst ?C, fst (snd ?C), snd (snd ?C))" by simp
  have ra: "?A = (Inr (False, NotFound), start_config, calm_world)"
    using delete_voice_cases [OF pa] a by (metis prod.collapse)
  have rb: "?B = (Inr (False, IsDefaultVoice), start_config, calm_world)"
    using delete_voice_cases [OF pb] b by (metis prod.collapse)
  have rc: "fst ?C = Inr (True, Deleted (lit ''abc'')) \<and>
            get_voice_list (fst (snd ?C)) = [lit ''default''] \<and>
            default_voice (fst (snd ?C)) = lit ''default''"
    using delete_voice_cases [OF pc] c s l d by (simp add: DEFAULT_VOICE_NAME_def)
  show ?thesis using ra rb rc c s by simp
qed

text \<open>
  C10. From a registry that satisfies the invariant, \<open>delete_voice\<close> leads to a registry
  that satisfies it again: the default pointer names an existing voice. When the pointer
  named the deleted voice it is reset to \<open>default\<close>; a call that succeeds was not for
  \<open>default\<close>, whose entry is left as it was; and a call for \<open>default\<close> itself never
  succeeds and changes nothing.
\<close>

theorem delete_voice_keeps_default_pointer:
  assumes "registry_ok m" and "delete_voice n m w = (r, m', w')"
  shows "registry_ok m' \<and>
         has_voice m' (default_voice m') \<and>
         (default_voice m = n \<longrightarrow> default_voice m' = DEFAULT_VOICE_NAME) \<and>
         (succeeded r \<longrightarrow> n \<noteq> DEFAULT_VOICE_NAME \<and> \<not> has_voice m' n) \<and>
         get_voice_info m' DEFAULT_VOICE_NAME = get_voice_info m DEFAULT_VOICE_NAME \<and>
         fst (snd (delete_voice DEFAULT_VOICE_NAME m w)) = m \<and>
         \<not> succeeded (fst (delete_voice DEFAULT_VOICE_NAME m w))"
proof -
  from assms(1) have dist: "distinct (get_voice_list m)"
    and hd: "has_voice m DEFAULT_VOICE_NAME" and hp: "has_voice m (default_voice m)"
    by (simp_all add: registry_ok_def)
  have last2: "fst (snd (delete_voice DEFAULT_VOICE_NAME m w)) = m \<and>
               \<not> succeeded (fst (delete_voice DEFAULT_VOICE_NAME m w))"
    using delete_voice_literal_default [OF hd, of w] by (simp add: succeeded_def)
  show ?thesis
  proof (cases "has_voice m n \<and> n \<noteq> DEFAULT_VOICE_NAME")
    case False
    then have "delete_voice n m w = (Inr (False, NotFound), m, w) \<or>
               delete_voice n m w = (Inr (False, IsDefaultVoice), m, w)"
      using delete_voice_not_found [of m n w] delete_voice_literal_default [of m w] by auto
    with assms(2) have same: "m' = m" and nr: "\<not> succeeded r"
      by (auto simp: succeeded_def)
    from False hp have "default_voice m = n \<longrightarrow> n = DEFAULT_VOICE_NAME" by auto
    with same nr assms(1) hp last2 show ?thesis by simp
  next
    case True
    then have h: "has_voice m n" and d: "n \<noteq> DEFAULT_VOICE_NAME" by simp_all
    have reg: "m' = m\<lparr>voices := AList.delete n (voices m),
               default_voice := (if default_voice m = n then DEFAULT_VOICE_NAME else default_voice m)\<rparr>"
      using delete_voice_registry [OF h d, of w] assms(2) by simp
    have keys: "get_voice_list m' = removeAll n (get_voice_list m)"
      by (simp add: reg get_voice_list_def delete_keys)
    have gone: "\<not> has_voice m' n" by (simp add: has_voice_def keys)
    have kept: "\<And>k. k \<noteq> n \<Longrightarrow> has_voice m k \<Longrightarrow> has_voice m' k"
      by (simp add: has_voice_def keys)
    have ptr: "default_voice m' = (if default_voice m = n then DEFAULT_VOICE_NAME else default_voice m)"
      by (simp add: reg)
    have "has_voice m' (default_voice m')"
      using ptr kept [of DEFAULT_VOICE_NAME] kept [of "default_voice m"] hd hp d by auto
    moreover have "has_voice m' DEFAULT_VOICE_NAME" using kept hd d by auto
    moreover have "distinct (get_voice_list m')" using dist by (simp add: keys distinct_removeAll)
    moreover have "get_voice_info m' DEFAULT_VOICE_NAME = get_voice_info m DEFAULT_VOICE_NAME"
      using d by (simp add: reg get_voice_info_def)
    ultimately show ?thesis using ptr gone d last2 by (simp add: registry_ok_def)
  qed
qed

text \<open>C10 on the sample registry whose default pointer is \<open>abc\<close>.\<close>

theorem delete_voice_keeps_default_pointer_witness:
  "registry_ok abc_default \<and> default_voice abc_default = lit ''abc'' \<and>
   succeeded (fst (delete_voice (lit ''abc'') abc_default calm_world)) \<and>
   registry_ok (fst (snd (delete_voice (lit ''abc'') abc_default calm_world))) \<and>
   default_voice (fst (snd (delete_voice (lit ''abc'') abc_default calm_world))) = DEFAULT_VOICE_NAME \<and>
   has_voice (fst (snd (delete_voice (lit ''abc'') abc_default calm_world))) DEFAULT_VOICE_NAME"
proof -
  let ?C = "delete_voice (lit ''abc'') abc_default calm_world"
  have ok: "registry_ok abc_default" by (simp add: registry_ok_def sample_defs)
  have d: "default_voice abc_default = lit ''abc''" by (simp add: abc_default_def)
  have pc: "?C = (fst ?C, fst (snd ?C), snd (snd ?C))" by simp
  have su: "succeeded (fst ?C)"
    by (simp add: succeeded_def sample_defs delete_voice_def Let_def save_config_def store_ok_def fault_exn_def after_fault_def path_exists_def
        path_join_def startswith_def VOICE_LIBRARY_DIR_def)
  from delete_voice_keeps_default_pointer [OF ok pc] d su ok
  show ?thesis by (simp add: registry_ok_def)
qed

section \<open>Registry mutations and the durable store\<close>

lemma create_voice_write_through:
  "write_through m w (create_voice n mo so d m w)"
  by (auto simp: write_through_def create_voice_def succeeded_def save_config_def store_ok_def
      after_fault_def Let_def
      split: sum.splits prod.splits if_splits option.splits write_fault.splits)

lemma clone_voice_write_through:
  "write_through m w (clone_voice n p rt d m w)"
  by (auto simp: write_through_def clone_voice_def succeeded_def save_config_def store_ok_def
      after_fault_def Let_def makedirs_def copy2_def
      split: sum.splits prod.splits if_splits option.splits write_fault.splits)

lemma delete_voice_write_through:
  "write_through m w (delete_voice n m w)"
  by (auto simp: write_through_def delete_voice_def succeeded_def save_config_def store_ok_def
      after_fault_def Let_def rmtree_def
      split: sum.splits prod.splits if_splits option.splits write_fault.splits)

lemma update_voice_settings_write_through:
  "write_through m w (update_voice_settings n st m w)"
  by (auto simp: write_through_def update_voice_settings_def succeeded_def save_config_def
      store_ok_def after_fault_def Let_def
      split: sum.splits prod.splits if_splits option.splits write_fault.splits)

lemma set_default_voice_write_through:
  "write_through m w (set_default_voice n m w)"
  by (auto simp: write_through_def set_default_voice_def succeeded_def save_config_def
      store_ok_def after_fault_def Let_def
      split: sum.splits prod.splits if_splits option.splits write_fault.splits)

lemma set_description_store:
  "case set_description n t m w of (e, m', w') \<Rightarrow>
     (e = None \<longrightarrow> store_ok w \<and> disk w' = Saved (config_json m')) \<and>
     (e \<noteq> None \<longrightarrow> disk w' = disk w \<or> disk w' = Truncated) \<and>
     (e = Some TypeError \<longrightarrow> m' = m \<and> w' = w)"
  by (auto simp: set_description_def save_config_def store_ok_def after_fault_def fault_exn_def
      Let_def
      split: option.splits prod.splits if_splits write_fault.splits)

text \<open>
  With a store whose write fails, each call that passes its check fails with the
  exception of that fault, keeps its change in memory, and leaves the file as the fault
  leaves it.
\<close>

lemma create_voice_kept:
  assumes "store_fault w = Some f" and "\<not> has_voice m n" and "has_voice m DEFAULT_VOICE_NAME"
  shows "fst (create_voice n mo so d m w) = Inl (fault_exn f) \<and>
         has_voice (fst (snd (create_voice n mo so d m w))) n \<and>
         disk (snd (snd (create_voice n mo so d m w))) = after_fault f (disk w)"
proof -
  obtain dv where dv: "get_voice_info m DEFAULT_VOICE_NAME = Some dv"
    using assms(3) by (auto simp: has_voice_map_of get_voice_info_def)
  show ?thesis
    using assms(1,2) dv
    by (auto simp: create_voice_def model_or_default_def settings_or_default_def default_entry_def
        copy_settings_def save_config_def Let_def has_voice_def get_voice_list_def dom_update
        split: option.splits sum.splits prod.splits)
qed

lemma clone_voice_kept:
  assumes "store_fault w = Some f" and "\<not> has_voice m n \<or> n = DEFAULT_VOICE_NAME"
    and "has_voice m DEFAULT_VOICE_NAME" and "makedirs_ok w" and "copy_ok w" and "files w p \<noteq> None"
  shows "fst (clone_voice n p rt d m w) = Inr (False, CloneError (fault_exn f)) \<and>
         map_option cloned (get_voice_info (fst (snd (clone_voice n p rt d m w))) n) = Some True \<and>
         disk (snd (snd (clone_voice n p rt d m w))) = after_fault f (disk w)"
proof -
  obtain dv where dv: "get_voice_info m DEFAULT_VOICE_NAME = Some dv"
    using assms(3) by (auto simp: has_voice_map_of get_voice_info_def)
  obtain b where b: "files w p = Some b" using assms(6) by auto
  show ?thesis
    using assms(1,2,4,5) dv b
    by (auto simp: clone_voice_def default_entry_def makedirs_def copy2_def
        copy_settings_def save_config_def Let_def get_voice_info_def update_conv'
        split: option.splits sum.splits prod.splits)
qed

lemma delete_voice_kept:
  assumes "store_fault w = Some f" and "has_voice m n" and "n \<noteq> DEFAULT_VOICE_NAME"
  shows "fst (delete_voice n m w) = Inl (fault_exn f) \<and>
         \<not> has_voice (fst (snd (delete_voice n m w))) n \<and>
         disk (snd (snd (delete_voice n m w))) = after_fault f (disk w)"
  using delete_voice_result [OF assms(2,3), of w] delete_voice_registry [OF assms(2,3), of w]
    delete_voice_disk [OF assms(2,3), of w] assms(1)
  by (simp add: has_voice_map_of delete_conv)

lemma update_voice_settings_kept:
  assumes "store_fault w = Some f" and "get_voice_info m n = Some v"
  shows "fst (update_voice_settings n st m w) = Inl (fault_exn f) \<and>
         objs (fst (snd (update_voice_settings n st m w))) (settings v)
           = dict_update (objs m (settings v)) st \<and>
         disk (snd (snd (update_voice_settings n st m w))) = after_fault f (disk w)"
  using assms by (simp add: update_voice_settings_def save_config_def Let_def)

lemma set_default_voice_kept:
  assumes "store_fault w = Some f" and "has_voice m n"
  shows "fst (set_default_voice n m w) = Inl (fault_exn f) \<and>
         default_voice (fst (snd (set_default_voice n m w))) = n \<and>
         disk (snd (snd (set_default_voice n m w))) = after_fault f (disk w)"
  using assms by (simp add: set_default_voice_def save_config_def Let_def)

lemma set_description_kept:
  assumes "store_fault w = Some f" and "has_voice m n"
  shows "fst (set_description n t m w) = Some (fault_exn f) \<and>
         map_option description (get_voice_info (fst (snd (set_description n t m w))) n) = Some t \<and>
         disk (snd (snd (set_description n t m w))) = after_fault f (disk w)"
proof -
  obtain v where v: "get_voice_info m n = Some v"
    using assms(2) by (auto simp: has_voice_map_of get_voice_info_def)
  show ?thesis using assms(1) v
    by (simp add: set_description_def save_config_def Let_def get_voice_info_def update_conv')
qed

text \<open>
  C2, as the code has it. Each of the six mutations (create, clone, delete, update of
  settings, choice of the default, change of a description) changes the registry in
  memory first and saves it afterwards, and nothing undoes the change. So: a call that
  succeeds has written what is in memory; a call refused by its check of the name (or,
  for the description, by the missing voice) changes nothing; and when the write of the
  configuration fails, a call that passes its check fails too (\<open>clone_voice\<close> with a
  failure result, the others by raising the exception of the write) while its change
  stays in memory, and the file is as it was when it could not be opened and cut short
  when the write broke off.
\<close>

theorem registry_mutations_and_store:
  "write_through m w (create_voice n mo so d m w) \<and>
   write_through m w (clone_voice n p rt d m w) \<and>
   write_through m w (delete_voice n m w) \<and>
   write_through m w (update_voice_settings n st m w) \<and>
   write_through m w (set_default_voice n m w) \<and>
   (case set_description n t m w of (e, m', w') \<Rightarrow>
      (e = None \<longrightarrow> store_ok w \<and> disk w' = Saved (config_json m')) \<and>
      (e \<noteq> None \<longrightarrow> disk w' = disk w \<or> disk w' = Truncated) \<and>
      (e = Some TypeError \<longrightarrow> m' = m \<and> w' = w)) \<and>
   (store_fault w = Some f \<longrightarrow>
      (\<not> has_voice m n \<and> has_voice m DEFAULT_VOICE_NAME \<longrightarrow>
         fst (create_voice n mo so d m w) = Inl (fault_exn f) \<and>
         has_voice (fst (snd (create_voice n mo so d m w))) n \<and>
         disk (snd (snd (create_voice n mo so d m w))) = after_fault f (disk w)) \<and>
      ((\<not> has_voice m n \<or> n = DEFAULT_VOICE_NAME) \<and> has_voice m DEFAULT_VOICE_NAME \<and>
       makedirs_ok w \<and> copy_ok w \<and> files w p \<noteq> None \<longrightarrow>
         fst (clone_voice n p rt d m w) = Inr (False, CloneError (fault_exn f)) \<and>
         map_option cloned (get_voice_info (fst (snd (clone_voice n p rt d m w))) n) = Some True \<and>
         disk (snd (snd (clone_voice n p rt d m w))) = after_fault f (disk w)) \<and>
      (has_voice m n \<and> n \<noteq> DEFAULT_VOICE_NAME \<longrightarrow>
         fst (delete_voice n m w) = Inl (fault_exn f) \<and>
         \<not> has_voice (fst (snd (delete_voice n m w))) n \<and>
         disk (snd (snd (delete_voice n m w))) = after_fault f (disk w)) \<and>
      (\<forall>v. get_voice_info m n = Some v \<longrightarrow>
         fst (update_voice_settings n st m w) = Inl (fault_exn f) \<and>
         objs (fst (snd (update_voice_settings n st m w))) (settings v)
           = dict_update (objs m (settings v)) st \<and>
         disk (snd (snd (update_voice_settings n st m w))) = after_fault f (disk w)) \<and>
      (has_voice m n \<longrightarrow>
         fst (set_default_voice n m w) = Inl (fault_exn f) \<and>
         default_voice (fst (snd (set_default_voice n m w))) = n \<and>
         disk (snd (snd (set_default_voice n m w))) = after_fault f (disk w)) \<and>
      (has_voice m n \<longrightarrow>
         fst (set_description n t m w) = Some (fault_exn f) \<and>
         map_option description (get_voice_info (fst (snd (set_description n t m w))) n) = Some t \<and>
         disk (snd (snd (set_description n t m w))) = after_fault f (disk w)))"
proof -
  have k1: "fst (create_voice n mo so d m w) = Inl (fault_exn f) \<and>
            has_voice (fst (snd (create_voice n mo so d m w))) n \<and>
            disk (snd (snd (create_voice n mo so d m w))) = after_fault f (disk w)"
    if "store_fault w = Some f" and "\<not> has_voice m n \<and> has_voice m DEFAULT_VOICE_NAME"
    using create_voice_kept [of w f m n mo so d] that by simp
  have k2: "fst (clone_voice n p rt d m w) = Inr (False, CloneError (fault_exn f)) \<and>
            map_option cloned (get_voice_info (fst (snd (clone_voice n p rt d m w))) n) = Some True \<and>
            disk (snd (snd (clone_voice n p rt d m w))) = after_fault f (disk w)"
    if "store_fault w = Some f"
      and "(\<not> has_voice m n \<or> n = DEFAULT_VOICE_NAME) \<and> has_voice m DEFAULT_VOICE_NAME \<and>
           makedirs_ok w \<and> copy_ok w \<and> files w p \<noteq> None"
    using clone_voice_kept [of w f m n p rt d] that by simp
  have k3: "fst (delete_voice n m w) = Inl (fault_exn f) \<and>
            \<not> has_voice (fst (snd (delete_voice n m w))) n \<and>
            disk (snd (snd (delete_voice n m w))) = after_fault f (disk w)"
    if "store_fault w = Some f" and "has_voice m n \<and> n \<noteq> DEFAULT_VOICE_NAME"
    using delete_voice_kept [of w f m n] that by simp
  have k4: "fst (update_voice_settings n st m w) = Inl (fault_exn f) \<and>
            objs (fst (snd (update_voice_settings n st m w))) (settings v)
              = dict_update (objs m (settings v)) st \<and>
            disk (snd (snd (update_voice_settings n st m w))) = after_fault f (disk w)"
    if "store_fault w = Some f" and "get_voice_info m n = Some v" for v
    using update_voice_settings_kept [of w f m n v st] that by simp
  have k5: "fst (set_default_voice n m w) = Inl (fault_exn f) \<and>
            default_voice (fst (snd (set_default_voice n m w))) = n \<and>
            disk (snd (snd (set_default_voice n m w))) = after_fault f (disk w)"
    if "store_fault w = Some f" and "has_voice m n"
    using set_default_voice_kept [of w f m n] that by simp
  have k6: "fst (set_description n t m w) = Some (fault_exn f) \<and>
            map_option description (get_voice_info (fst (snd (set_description n t m w))) n) = Some t \<and>
            disk (snd (snd (set_description n t m w))) = after_fault f (disk w)"
    if "store_fault w = Some f" and "has_voice m n"
    using set_description_kept [of w f m n t] that by simp
  have kept: "store_fault w = Some f \<longrightarrow>
      (\<not> has_voice m n \<and> has_voice m DEFAULT_VOICE_NAME \<longrightarrow>
         fst (create_voice n mo so d m w) = Inl (fault_exn f) \<and>
         has_voice (fst (snd (create_voice n mo so d m w))) n \<and>
         disk (snd (snd (create_voice n mo so d m w))) = after_fault f (disk w)) \<and>
      ((\<not> has_voice m n \<or> n = DEFAULT_VOICE_NAME) \<and> has_voice m DEFAULT_VOICE_NAME \<and>
       makedirs_ok w \<and> copy_ok w \<and> files w p \<noteq> None \<longrightarrow>
         fst (clone_voice n p rt d m w) = Inr (False, CloneError (fault_exn f)) \<and>
         map_option cloned (get_voice_info (fst (snd (clone_voice n p rt d m w))) n) = Some True \<and>
         disk (snd (snd (clone_voice n p rt d m w))) = after_fault f (disk w)) \<and>
      (has_voice m n \<and> n \<noteq> DEFAULT_VOICE_NAME \<longrightarrow>
         fst (delete_voice n m w) = Inl (fault_exn f) \<and>
         \<not> has_voice (fst (snd (delete_voice n m w))) n \<and>
         disk (snd (snd (delete_voice n m w))) = after_fault f (disk w)) \<and>
      (\<forall>v. get_voice_info m n = Some v \<longrightarrow>
         fst (update_voice_settings n st m w) = Inl (fault_exn f) \<and>
         objs (fst (snd (update_voice_settings n st m w))) (settings v)
           = dict_update (objs m (settings v)) st \<and>
         disk (snd (snd (update_voice_settings n st m w))) = after_fault f (disk w)) \<and>
      (has_voice m n \<longrightarrow>
         fst (set_default_voice n m w) = Inl (fault_exn f) \<and>
         default_voice (fst (snd (set_default_voice n m w))) = n \<and>
         disk (snd (snd (set_default_voice n m w))) = after_fault f (disk w)) \<and>
      (has_voice m n \<longrightarrow>
         fst (set_description n t m w) = Some (fault_exn f) \<and>
         map_option description (get_voice_info (fst (snd (set_description n t m w))) n) = Some t \<and>
         disk (snd (snd (set_description n t m w))) = after_fault f (disk w))"
    using k1 k2 k3 k4 k5 k6 by blast
  show ?thesis
    by (intro conjI create_voice_write_through clone_voice_write_through
        delete_voice_write_through update_voice_settings_write_through
        set_default_voice_write_through set_description_store kept)
qed

text \<open>
  C2 as stated fails: with a configuration file that cannot be opened for writing,
  \<open>clone_voice\<close> returns a failure and \<open>create_voice\<close> raises, and in both cases the
  new voice \<open>abc\<close> is in the registry in memory although nothing was written.
\<close>

theorem failed_store_keeps_mutation_counterexample:
  "get_voice_list start_config = [lit ''default''] \<and>
   fst (clone_voice (lit ''abc'') (lit ''temp_audio/sample.ogg'') [] [] start_config readonly_world)
     = Inr (False, CloneError OSError) \<and>
   get_voice_list
     (fst (snd (clone_voice (lit ''abc'') (lit ''temp_audio/sample.ogg'') [] [] start_config
                  readonly_world)))
     = [lit ''default'', lit ''abc''] \<and>
   fst (create_voice (lit ''abc'') None None [] start_config readonly_world) = Inl OSError \<and>
   get_voice_list (fst (snd (create_voice (lit ''abc'') None None [] start_config readonly_world)))
     = [lit ''default'', lit ''abc''] \<and>
   disk (snd (snd (create_voice (lit ''abc'') None None [] start_config readonly_world))) = NoFile"
  by (simp add: sample_defs clone_voice_def create_voice_def model_or_default_def
      settings_or_default_def default_entry_def copy_settings_def makedirs_def copy2_def
      save_config_def fault_exn_def after_fault_def Let_def path_join_def startswith_def
      VOICE_LIBRARY_DIR_def)

text \<open>
  C2 on the sample registries: a file that cannot be opened (the change stays in memory,
  the file is as before), a write that breaks off (the change stays in memory, the saved
  document is lost), and a working store (memory and file agree).
\<close>

theorem registry_mutations_and_store_witness:
  "store_fault readonly_world = Some OpenFails \<and>
   \<not> has_voice start_config (lit ''abc'') \<and> has_voice start_config DEFAULT_VOICE_NAME \<and>
   fst (create_voice (lit ''abc'') None None [] start_config readonly_world) = Inl OSError \<and>
   has_voice (fst (snd (create_voice (lit ''abc'') None None [] start_config readonly_world)))
     (lit ''abc'') \<and>
   disk (snd (snd (create_voice (lit ''abc'') None None [] start_config readonly_world))) = NoFile \<and>
   store_fault full_disk_world = Some WriteFails \<and>
   disk full_disk_world = Saved (config_json start_config) \<and>
   has_voice abc_default (lit ''abc'') \<and>
   fst (set_default_voice (lit ''abc'') abc_default full_disk_world) = Inl OSError \<and>
   default_voice (fst (snd (set_default_voice (lit ''abc'') abc_default full_disk_world)))
     = lit ''abc'' \<and>
   disk (snd (snd (set_default_voice (lit ''abc'') abc_default full_disk_world))) = Truncated \<and>
   succeeded (fst (set_default_voice (lit ''abc'') abc_default calm_world)) \<and>
   disk (snd (snd (set_default_voice (lit ''abc'') abc_default calm_world)))
     = Saved (config_json (fst (snd (set_default_voice (lit ''abc'') abc_default calm_world))))"
proof -
  have s: "store_fault readonly_world = Some OpenFails" "disk readonly_world = NoFile"
    by (simp_all add: sample_defs)
  have t: "store_fault full_disk_world = Some WriteFails"
    "disk full_disk_world = Saved (config_json start_config)"
    by (simp_all add: full_disk_world_def calm_world_def)
  have a: "\<not> has_voice start_config (lit ''abc'') \<and> has_voice start_config DEFAULT_VOICE_NAME"
    by (simp add: sample_defs)
  have b: "has_voice abc_default (lit ''abc'')" by (simp add: sample_defs)
  have c: "succeeded (fst (set_default_voice (lit ''abc'') abc_default calm_world))"
    by (simp add: sample_defs set_default_voice_def save_config_def Let_def succeeded_def)
  from registry_mutations_and_store
         [of start_config readonly_world "lit ''abc''" None None "[]" "[]" "[]" "[]" "[]" OpenFails]
       s a
  have k1: "fst (create_voice (lit ''abc'') None None [] start_config readonly_world) = Inl OSError \<and>
            has_voice (fst (snd (create_voice (lit ''abc'') None None [] start_config readonly_world)))
              (lit ''abc'') \<and>
            disk (snd (snd (create_voice (lit ''abc'') None None [] start_config readonly_world)))
              = NoFile"
    by (simp add: fault_exn_def after_fault_def)
  from registry_mutations_and_store
         [of abc_default full_disk_world "lit ''abc''" None None "[]" "[]" "[]" "[]" "[]" WriteFails]
       t b
  have k2: "fst (set_default_voice (lit ''abc'') abc_default full_disk_world) = Inl OSError \<and>
            default_voice (fst (snd (set_default_voice (lit ''abc'') abc_default full_disk_world)))
              = lit ''abc'' \<and>
            disk (snd (snd (set_default_voice (lit ''abc'') abc_default full_disk_world))) = Truncated"
    by (simp add: fault_exn_def after_fault_def)
  from registry_mutations_and_store
         [of abc_default calm_world "lit ''abc''" None None "[]" "[]" "[]" "[]" "[]" OpenFails]
  have "write_through abc_default calm_world (set_default_voice (lit ''abc'') abc_default calm_world)"
    by blast
  with c have k3: "disk (snd (snd (set_default_voice (lit ''abc'') abc_default calm_world)))
     = Saved (config_json (fst (snd (set_default_voice (lit ''abc'') abc_default calm_world))))"
    by (simp add: write_through_def split: prod.splits)
  show ?thesis using s t a b c k1 k2 k3 by simp
qed

section \<open>create_voice\<close>

lemma update_new_key:
  "k \<notin> fst ` set al \<Longrightarrow> AList.update k v al = al @ [(k, v)]"
  by (induction al) auto

lemma create_voice_exists:
  "has_voice m n \<Longrightarrow> create_voice n mo so d m w = (Inr (False, AlreadyExists), m, w)"
  by (simp add: create_voice_def)

text \<open>What a successful creation with defaulted settings leaves in memory.\<close>

lemma create_voice_fresh:
  assumes "\<not> has_voice m n" and "get_voice_info m DEFAULT_VOICE_NAME = Some dv"
    and "case so of None \<Rightarrow> True | Some a \<Rightarrow> objs m a = []"
  shows "fst (snd (create_voice n mo so d m w)) =
           m\<lparr>voices := voices m @
                [(n, \<lparr>model = (case mo of Some x \<Rightarrow> if x \<noteq> [] then x else model dv | None \<Rightarrow> model dv),
                      settings = next_ref m, cloned = False, cloned_from = None,
                      reference_text = None, created_at = now w,
                      description = (if d \<noteq> [] then d else user_voice_prefix @ n)\<rparr>)],
             objs := (objs m)(next_ref m := objs m (settings dv)),
             next_ref := Suc (next_ref m)\<rparr>"
  using assms
  by (auto simp: create_voice_def model_or_default_def settings_or_default_def default_entry_def
      copy_settings_def save_config_def store_ok_def fault_exn_def after_fault_def Let_def has_voice_def get_voice_list_def update_new_key
      split: option.splits sum.splits prod.splits)

lemma create_voice_result:
  assumes "\<not> has_voice m n" and "get_voice_info m DEFAULT_VOICE_NAME = Some dv"
  shows "fst (create_voice n mo so d m w) =
           (case store_fault w of None \<Rightarrow> Inr (True, Created n) | Some f \<Rightarrow> Inl (fault_exn f))"
  using assms
  by (auto simp: create_voice_def model_or_default_def settings_or_default_def default_entry_def
      copy_settings_def save_config_def store_ok_def fault_exn_def after_fault_def Let_def
      split: option.splits sum.splits prod.splits)

lemma refs_ok_less:
  "refs_ok m \<Longrightarrow> (k, u) \<in> set (voices m) \<Longrightarrow> settings u < next_ref m"
  by (auto simp: refs_ok_def list_all_iff)

lemma get_voice_info_mem:
  "get_voice_info m k = Some u \<Longrightarrow> (k, u) \<in> set (voices m)"
  by (simp add: get_voice_info_def map_of_SomeD)


lemma settings_of_update_other:
  assumes "get_voice_info m k = Some u" and "get_voice_info m j = Some v"
    and "settings u \<noteq> settings v"
  shows "settings_of (fst (snd (update_voice_settings k st m w))) j = Some (objs m (settings v))"
  using assms
  by (auto simp: update_voice_settings_def settings_of_def get_voice_info_def save_config_def Let_def
      split: prod.splits option.splits)

text \<open>
  C5, as the code has it. \<open>create_voice\<close> answers \<open>AlreadyExists\<close> for a present name
  and changes nothing. For a new name, in a registry that has the voice \<open>default\<close> and
  with a store that can be written, it succeeds and appends the voice; a model that is
  not supplied (or empty) is the model of the voice named \<open>default\<close>, and settings that
  are not supplied (or empty) are a copy of the settings of the voice named \<open>default\<close>,
  at an address no existing voice uses: a later settings update of the new voice leaves
  those of \<open>default\<close> as they were, and the other way round. The template is the
  literal name \<open>default\<close>, not the voice the default pointer names.
\<close>

theorem create_voice_spec:
  assumes "create_voice n mo so d m w = (r, m', w')"
  shows "(has_voice m n \<longrightarrow> r = Inr (False, AlreadyExists) \<and> m' = m \<and> w' = w) \<and>
         (\<not> has_voice m n \<and> get_voice_info m DEFAULT_VOICE_NAME = Some dv \<and> refs_ok m \<and> store_ok w \<longrightarrow>
            r = Inr (True, Created n) \<and>
            get_voice_list m' = get_voice_list m @ [n] \<and>
            map_option model (get_voice_info m' n)
              = Some (case mo of Some x \<Rightarrow> if x \<noteq> [] then x else model dv | None \<Rightarrow> model dv) \<and>
            map_option description (get_voice_info m' n)
              = Some (if d \<noteq> [] then d else user_voice_prefix @ n) \<and>
            (\<forall>k. k \<noteq> n \<longrightarrow> get_voice_info m' k = get_voice_info m k \<and> settings_of m' k = settings_of m k) \<and>
            ((case so of None \<Rightarrow> True | Some a \<Rightarrow> objs m a = []) \<longrightarrow>
               settings_of m' n = Some (objs m (settings dv)) \<and>
               (\<forall>k u v. get_voice_info m k = Some u \<and> get_voice_info m' n = Some v
                    \<longrightarrow> settings v \<noteq> settings u) \<and>
               (\<forall>st. settings_of (fst (snd (update_voice_settings n st m' w'))) DEFAULT_VOICE_NAME
                       = settings_of m DEFAULT_VOICE_NAME) \<and>
               (\<forall>st. settings_of (fst (snd (update_voice_settings DEFAULT_VOICE_NAME st m' w'))) n
                       = Some (objs m (settings dv)))))"
proof -
  have A: "r = Inr (False, AlreadyExists) \<and> m' = m \<and> w' = w" if "has_voice m n"
    using create_voice_exists [OF that, of mo so d w] assms by simp
  have B: "r = Inr (True, Created n) \<and>
            get_voice_list m' = get_voice_list m @ [n] \<and>
            map_option model (get_voice_info m' n)
              = Some (case mo of Some x \<Rightarrow> if x \<noteq> [] then x else model dv | None \<Rightarrow> model dv) \<and>
            map_option description (get_voice_info m' n)
              = Some (if d \<noteq> [] then d else user_voice_prefix @ n) \<and>
            (\<forall>k. k \<noteq> n \<longrightarrow> get_voice_info m' k = get_voice_info m k \<and> settings_of m' k = settings_of m k)"
    if a: "\<not> has_voice m n \<and> get_voice_info m DEFAULT_VOICE_NAME = Some dv \<and> refs_ok m \<and> store_ok w"
  proof -
    from a have nh: "\<not> has_voice m n" and dv: "get_voice_info m DEFAULT_VOICE_NAME = Some dv"
      and ro: "refs_ok m" and so: "store_ok w" by simp_all
    from nh have nk: "map_of (voices m) n = None" by (simp add: has_voice_map_of)
    have res: "r = Inr (True, Created n)"
      using create_voice_result [OF nh dv, of mo so d w] assms so by (simp add: store_ok_def)
    have lst: "get_voice_list m' = get_voice_list m @ [n]"
      and others: "\<And>k. k \<noteq> n \<Longrightarrow> get_voice_info m' k = get_voice_info m k"
      and mdl: "map_option model (get_voice_info m' n)
                = Some (case mo of Some x \<Rightarrow> if x \<noteq> [] then x else model dv | None \<Rightarrow> model dv)"
      and dsc: "map_option description (get_voice_info m' n)
                = Some (if d \<noteq> [] then d else user_voice_prefix @ n)"
      and hp: "\<And>a. a < next_ref m \<Longrightarrow> objs m' a = objs m a"
      using assms nh dv nk
      by (auto simp: create_voice_def model_or_default_def settings_or_default_def default_entry_def
          copy_settings_def save_config_def store_ok_def fault_exn_def after_fault_def Let_def has_voice_def get_voice_list_def update_new_key
          get_voice_info_def map_add_def
          split: option.splits sum.splits prod.splits if_splits)
    have oth: "settings_of m' k = settings_of m k" if kn: "k \<noteq> n" for k
    proof (cases "get_voice_info m k")
      case None
      then show ?thesis using others [OF kn] by (simp add: settings_of_def)
    next
      case (Some u)
      then have "settings u < next_ref m"
        using refs_ok_less [OF ro get_voice_info_mem] by simp
      then show ?thesis using others [OF kn] Some hp by (simp add: settings_of_def)
    qed
    show ?thesis using res lst mdl dsc others oth by simp
  qed
  have C: "settings_of m' n = Some (objs m (settings dv)) \<and>
           (\<forall>k u v. get_voice_info m k = Some u \<and> get_voice_info m' n = Some v
                \<longrightarrow> settings v \<noteq> settings u) \<and>
           (\<forall>st. settings_of (fst (snd (update_voice_settings n st m' w'))) DEFAULT_VOICE_NAME
                   = settings_of m DEFAULT_VOICE_NAME) \<and>
           (\<forall>st. settings_of (fst (snd (update_voice_settings DEFAULT_VOICE_NAME st m' w'))) n
                   = Some (objs m (settings dv)))"
    if a: "\<not> has_voice m n \<and> get_voice_info m DEFAULT_VOICE_NAME = Some dv \<and> refs_ok m \<and> store_ok w"
      and c: "case so of None \<Rightarrow> True | Some a \<Rightarrow> objs m a = []"
  proof -
    from a have nh: "\<not> has_voice m n" and dv: "get_voice_info m DEFAULT_VOICE_NAME = Some dv"
      and ro: "refs_ok m" and so: "store_ok w" by simp_all
    from nh have nk: "map_of (voices m) n = None" by (simp add: has_voice_map_of)
    from dv nk have dn: "DEFAULT_VOICE_NAME \<noteq> n" by (auto simp: get_voice_info_def)
    define v where "v = \<lparr>model = (case mo of Some x \<Rightarrow> if x \<noteq> [] then x else model dv | None \<Rightarrow> model dv),
                        settings = next_ref m, cloned = False, cloned_from = None,
                        reference_text = None, created_at = now w,
                        description = (if d \<noteq> [] then d else user_voice_prefix @ n)\<rparr>"
    have m': "m' = m\<lparr>voices := voices m @ [(n, v)],
               objs := (objs m)(next_ref m := objs m (settings dv)),
               next_ref := Suc (next_ref m)\<rparr>"
      using create_voice_fresh [OF nh dv c, of mo d w] assms by (simp add: v_def)
    have gn: "get_voice_info m' n = Some v"
      using nk by (simp add: m' get_voice_info_def map_add_def)
    have gd: "get_voice_info m' DEFAULT_VOICE_NAME = Some dv"
      using dv dn by (simp add: m' get_voice_info_def map_add_def)
    have sv: "settings v = next_ref m" by (simp add: v_def)
    have lt: "\<And>k u. get_voice_info m k = Some u \<Longrightarrow> settings u < next_ref m"
      using refs_ok_less [OF ro get_voice_info_mem] by simp
    have dlt: "settings dv < next_ref m" by (rule lt [OF dv])
    have c1: "settings_of m' n = Some (objs m (settings dv))"
      by (simp add: settings_of_def gn sv) (simp add: m')
    have c2: "\<forall>k u v. get_voice_info m k = Some u \<and> get_voice_info m' n = Some v
            \<longrightarrow> settings v \<noteq> settings u"
      using gn sv lt by fastforce
    have od: "objs m' (settings dv) = objs m (settings dv)" using dlt by (simp add: m')
    have on: "objs m' (settings v) = objs m (settings dv)" by (simp add: sv) (simp add: m')
    have ne: "settings v \<noteq> settings dv" using sv dlt by simp
    have c3: "\<forall>st. settings_of (fst (snd (update_voice_settings n st m' w'))) DEFAULT_VOICE_NAME
            = settings_of m DEFAULT_VOICE_NAME"
      using settings_of_update_other [OF gn gd ne] od dv by (simp add: settings_of_def)
    have c4: "\<forall>st. settings_of (fst (snd (update_voice_settings DEFAULT_VOICE_NAME st m' w'))) n
            = Some (objs m (settings dv))"
      using settings_of_update_other [OF gd gn ne [symmetric]] on by simp
    show ?thesis using c1 c2 c3 c4 by blast
  qed
  show ?thesis using A B C by blast
qed


text \<open>
  C5 as stated fails: with the default pointer on \<open>abc\<close> (speed 1.5), a new voice gets
  the settings of the voice named \<open>default\<close> (speed 1.0), not those of the voice the
  pointer names.
\<close>

theorem create_ignores_default_pointer_counterexample:
  "default_voice abc_default = lit ''abc'' \<and>
   settings_of abc_default (default_voice abc_default) = Some abc_settings \<and>
   fst (create_voice (lit ''xyz'') None None [] abc_default calm_world)
     = Inr (True, Created (lit ''xyz'')) \<and>
   settings_of (fst (snd (create_voice (lit ''xyz'') None None [] abc_default calm_world))) (lit ''xyz'')
     = Some default_settings \<and>
   abc_settings \<noteq> default_settings"
  by (simp add: sample_defs settings_of_def create_voice_def model_or_default_def
      settings_or_default_def default_entry_def copy_settings_def save_config_def store_ok_def fault_exn_def after_fault_def Let_def
      abc_entry_def default_voice_entry_def abc_settings_def default_settings_def f_1_0_def)

text \<open>C5 on the sample registry: a present and a new name.\<close>

theorem create_voice_spec_witness:
  "has_voice abc_default (lit ''abc'') \<and>
   create_voice (lit ''abc'') None None [] abc_default calm_world
     = (Inr (False, AlreadyExists), abc_default, calm_world) \<and>
   \<not> has_voice abc_default (lit ''xyz'') \<and> refs_ok abc_default \<and> store_ok calm_world \<and>
   get_voice_info abc_default DEFAULT_VOICE_NAME
     = Some (default_voice_entry (lit ''2026-01-01 10:00:00'')) \<and>
   fst (create_voice (lit ''xyz'') None None [] abc_default calm_world)
     = Inr (True, Created (lit ''xyz'')) \<and>
   get_voice_list (fst (snd (create_voice (lit ''xyz'') None None [] abc_default calm_world)))
     = [lit ''default'', lit ''abc'', lit ''xyz''] \<and>
   map_option description
     (get_voice_info (fst (snd (create_voice (lit ''xyz'') None None [] abc_default calm_world)))
        (lit ''xyz''))
     = Some (user_voice_prefix @ lit ''xyz'') \<and>
   settings_of (fst (snd (create_voice (lit ''xyz'') None None [] abc_default calm_world))) (lit ''xyz'')
     = Some default_settings"
proof -
  let ?A = "create_voice (lit ''abc'') None None [] abc_default calm_world"
  let ?X = "create_voice (lit ''xyz'') None None [] abc_default calm_world"
  have pa: "?A = (fst ?A, fst (snd ?A), snd (snd ?A))" by simp
  have px: "?X = (fst ?X, fst (snd ?X), snd (snd ?X))" by simp
  have h: "has_voice abc_default (lit ''abc'')" by (simp add: sample_defs)
  have nh: "\<not> has_voice abc_default (lit ''xyz'')" by (simp add: sample_defs)
  have dv: "get_voice_info abc_default DEFAULT_VOICE_NAME
              = Some (default_voice_entry (lit ''2026-01-01 10:00:00''))"
    by (simp add: sample_defs)
  have ro: "refs_ok abc_default"
    by (simp add: refs_ok_def abc_default_def abc_entry_def default_voice_entry_def)
  have st: "store_ok calm_world" by (simp add: calm_world_def store_ok_def)
  have ob: "objs abc_default (settings (default_voice_entry (lit ''2026-01-01 10:00:00'')))
              = default_settings"
    by (simp add: abc_default_def default_voice_entry_def)
  have gl: "get_voice_list abc_default @ [lit ''xyz''] = [lit ''default'', lit ''abc'', lit ''xyz'']"
    by (simp add: sample_defs)
  have ra: "?A = (Inr (False, AlreadyExists), abc_default, calm_world)"
    using create_voice_spec [OF pa] h by (metis prod.collapse)
  from create_voice_spec [OF px, of "default_voice_entry (lit ''2026-01-01 10:00:00'')"] nh dv ro st
  have rx: "fst ?X = Inr (True, Created (lit ''xyz'')) \<and>
            get_voice_list (fst (snd ?X)) = get_voice_list abc_default @ [lit ''xyz''] \<and>
            map_option description (get_voice_info (fst (snd ?X)) (lit ''xyz''))
              = Some (user_voice_prefix @ lit ''xyz'') \<and>
            settings_of (fst (snd ?X)) (lit ''xyz'')
              = Some (objs abc_default (settings (default_voice_entry (lit ''2026-01-01 10:00:00''))))"
    by simp
  show ?thesis using ra rx h nh dv ro st ob gl by simp
qed

section \<open>clone_voice\<close>

lemma clone_voice_exists:
  "has_voice m n \<Longrightarrow> n \<noteq> DEFAULT_VOICE_NAME \<Longrightarrow>
   clone_voice n p rt d m w = (Inr (False, AlreadyExists), m, w)"
  by (simp add: clone_voice_def)

lemma clone_voice_success_needs:
  assumes "succeeded (fst (clone_voice n p rt d m w))"
  shows "(\<not> has_voice m n \<or> n = DEFAULT_VOICE_NAME) \<and> has_voice m DEFAULT_VOICE_NAME \<and>
         files w p \<noteq> None \<and> makedirs_ok w \<and> copy_ok w \<and> store_ok w"
  using assms
  by (auto simp: clone_voice_def succeeded_def default_entry_def makedirs_def copy2_def
      copy_settings_def save_config_def store_ok_def fault_exn_def after_fault_def Let_def has_voice_map_of get_voice_info_def
      split: option.splits sum.splits prod.splits if_splits)

lemma clone_voice_run:
  assumes "\<not> has_voice m n \<or> n = DEFAULT_VOICE_NAME"
    and "get_voice_info m DEFAULT_VOICE_NAME = Some dv" and "files w p = Some b"
    and "makedirs_ok w" and "copy_ok w" and "store_ok w"
  shows "clone_voice n p rt d m w =
     (let q = path_join (path_join VOICE_LIBRARY_DIR n) (lit ''reference_audio.wav'');
          m1 = m\<lparr>objs := (objs m)(next_ref m := objs m (settings dv)),
                  next_ref := Suc (next_ref m),
                  voices := AList.update n
                     \<lparr>model = model dv, settings = next_ref m, cloned = True,
                      cloned_from = Some q, reference_text = Some rt, created_at = now w,
                      description = (if d \<noteq> [] then d else cloned_voice_prefix @ n)\<rparr> (voices m)\<rparr>
      in (Inr (True, Cloned n), m1,
          w\<lparr>dirs := insert (path_join VOICE_LIBRARY_DIR n) (dirs w),
            files := (files w)(q := Some b),
            disk := Saved (config_json m1)\<rparr>))"
  using assms
  by (auto simp: clone_voice_def default_entry_def makedirs_def copy2_def
      copy_settings_def save_config_def store_ok_def fault_exn_def after_fault_def Let_def
      split: option.splits sum.splits prod.splits)


text \<open>
  C6, as the code has it. \<open>clone_voice\<close> answers \<open>AlreadyExists\<close> for every present name other than
  \<open>default\<close>, and changes nothing. It succeeds only for a new name or for \<open>default\<close>,
  and then the sample was copied and the configuration saved. When it runs for such a
  name with a readable sample, a registry that has the voice \<open>default\<close> and a file
  system that accepts the calls, it succeeds: the entry of the name (a new one at the
  end, or the replaced entry of \<open>default\<close>) has \<open>cloned\<close> true, refers to
  \<open>voice_library/name/reference_audio.wav\<close>, which holds the bytes of the sample, has
  the model of \<open>default\<close> and a copy of the settings the voice named \<open>default\<close> had; the
  other entries are untouched and the configuration is on disk. The seed is the voice
  stored under the literal name \<open>default\<close>, not the voice the default pointer names.
\<close>

theorem clone_voice_spec:
  assumes "clone_voice n p rt d m w = (r, m', w')"
  shows "(has_voice m n \<and> n \<noteq> DEFAULT_VOICE_NAME \<longrightarrow>
            r = Inr (False, AlreadyExists) \<and> m' = m \<and> w' = w) \<and>
         (succeeded r \<longrightarrow>
            (\<not> has_voice m n \<or> n = DEFAULT_VOICE_NAME) \<and> has_voice m DEFAULT_VOICE_NAME \<and>
            files w p \<noteq> None \<and> makedirs_ok w \<and> copy_ok w \<and> store_ok w) \<and>
         ((\<not> has_voice m n \<or> n = DEFAULT_VOICE_NAME) \<and>
          get_voice_info m DEFAULT_VOICE_NAME = Some dv \<and> files w p = Some b \<and>
          makedirs_ok w \<and> copy_ok w \<and> store_ok w \<longrightarrow>
            r = Inr (True, Cloned n) \<and>
            get_voice_list m' = (if has_voice m n then get_voice_list m else get_voice_list m @ [n]) \<and>
            map_option cloned (get_voice_info m' n) = Some True \<and>
            map_option cloned_from (get_voice_info m' n)
              = Some (Some (path_join (path_join VOICE_LIBRARY_DIR n) (lit ''reference_audio.wav''))) \<and>
            files w' (path_join (path_join VOICE_LIBRARY_DIR n) (lit ''reference_audio.wav'')) = Some b \<and>
            map_option reference_text (get_voice_info m' n) = Some (Some rt) \<and>
            map_option model (get_voice_info m' n) = Some (model dv) \<and>
            map_option description (get_voice_info m' n)
              = Some (if d \<noteq> [] then d else cloned_voice_prefix @ n) \<and>
            settings_of m' n = Some (objs m (settings dv)) \<and>
            (\<forall>k. k \<noteq> n \<longrightarrow> get_voice_info m' k = get_voice_info m k) \<and>
            disk w' = Saved (config_json m'))"
proof -
  have A: "r = Inr (False, AlreadyExists) \<and> m' = m \<and> w' = w"
    if "has_voice m n \<and> n \<noteq> DEFAULT_VOICE_NAME"
    using clone_voice_exists [of m n p rt d w] that assms by simp
  have B: "(\<not> has_voice m n \<or> n = DEFAULT_VOICE_NAME) \<and> has_voice m DEFAULT_VOICE_NAME \<and>
            files w p \<noteq> None \<and> makedirs_ok w \<and> copy_ok w \<and> store_ok w"
    if "succeeded r"
    using clone_voice_success_needs [of n p rt d m w] that assms by simp
  have C: "r = Inr (True, Cloned n) \<and>
            get_voice_list m' = (if has_voice m n then get_voice_list m else get_voice_list m @ [n]) \<and>
            map_option cloned (get_voice_info m' n) = Some True \<and>
            map_option cloned_from (get_voice_info m' n)
              = Some (Some (path_join (path_join VOICE_LIBRARY_DIR n) (lit ''reference_audio.wav''))) \<and>
            files w' (path_join (path_join VOICE_LIBRARY_DIR n) (lit ''reference_audio.wav'')) = Some b \<and>
            map_option reference_text (get_voice_info m' n) = Some (Some rt) \<and>
            map_option model (get_voice_info m' n) = Some (model dv) \<and>
            map_option description (get_voice_info m' n)
              = Some (if d \<noteq> [] then d else cloned_voice_prefix @ n) \<and>
            settings_of m' n = Some (objs m (settings dv)) \<and>
            (\<forall>k. k \<noteq> n \<longrightarrow> get_voice_info m' k = get_voice_info m k) \<and>
            disk w' = Saved (config_json m')"
    if c: "(\<not> has_voice m n \<or> n = DEFAULT_VOICE_NAME) \<and>
          get_voice_info m DEFAULT_VOICE_NAME = Some dv \<and> files w p = Some b \<and>
          makedirs_ok w \<and> copy_ok w \<and> store_ok w"
  proof -
    from c have c1: "\<not> has_voice m n \<or> n = DEFAULT_VOICE_NAME"
      and c2: "get_voice_info m DEFAULT_VOICE_NAME = Some dv" and c3: "files w p = Some b"
      and c4: "makedirs_ok w" and c5: "copy_ok w" and c6: "store_ok w" by simp_all
    note run = clone_voice_run [OF c1 c2 c3 c4 c5 c6, of rt d]
    from run assms show ?thesis
      by (auto simp: Let_def get_voice_list_def update_keys has_voice_def get_voice_info_def
          update_conv' settings_of_def)
  qed
  show ?thesis using A B C by blast
qed


text \<open>
  C6 as stated fails for the seed of the settings: with the default pointer on \<open>abc\<close>
  (speed 1.5), a clone gets the settings of the voice named \<open>default\<close> (speed 1.0), not
  those of the default voice the pointer names.
\<close>

theorem clone_ignores_default_pointer_counterexample:
  "default_voice abc_default = lit ''abc'' \<and>
   settings_of abc_default (default_voice abc_default) = Some abc_settings \<and>
   fst (clone_voice (lit ''xyz'') (lit ''temp_audio/sample.ogg'') [] [] abc_default calm_world)
     = Inr (True, Cloned (lit ''xyz'')) \<and>
   settings_of
     (fst (snd (clone_voice (lit ''xyz'') (lit ''temp_audio/sample.ogg'') [] [] abc_default
                  calm_world)))
     (lit ''xyz'')
     = Some default_settings \<and>
   abc_settings \<noteq> default_settings"
  by (simp add: sample_defs settings_of_def clone_voice_def default_entry_def copy_settings_def
      makedirs_def copy2_def save_config_def Let_def path_join_def startswith_def
      VOICE_LIBRARY_DIR_def abc_entry_def default_voice_entry_def abc_settings_def
      default_settings_def f_1_0_def)

text \<open>
  C6 on the sample registries: a present name is refused; with the default pointer on
  \<open>abc\<close> a new name is cloned from the sample and seeded from the voice named
  \<open>default\<close>; and \<open>default\<close> itself is overwritten.
\<close>

theorem clone_voice_spec_witness:
  "has_voice abc_default (lit ''abc'') \<and> lit ''abc'' \<noteq> DEFAULT_VOICE_NAME \<and>
   clone_voice (lit ''abc'') (lit ''temp_audio/sample.ogg'') [] [] abc_default calm_world
     = (Inr (False, AlreadyExists), abc_default, calm_world) \<and>
   \<not> has_voice abc_default (lit ''xyz'') \<and> default_voice abc_default = lit ''abc'' \<and>
   files calm_world (lit ''temp_audio/sample.ogg'') = Some [79, 103, 103] \<and>
   makedirs_ok calm_world \<and> copy_ok calm_world \<and> store_ok calm_world \<and>
   fst (clone_voice (lit ''xyz'') (lit ''temp_audio/sample.ogg'') [] [] abc_default calm_world)
     = Inr (True, Cloned (lit ''xyz'')) \<and>
   get_voice_list
     (fst (snd (clone_voice (lit ''xyz'') (lit ''temp_audio/sample.ogg'') [] [] abc_default
                  calm_world)))
     = [lit ''default'', lit ''abc'', lit ''xyz''] \<and>
   map_option cloned
     (get_voice_info
        (fst (snd (clone_voice (lit ''xyz'') (lit ''temp_audio/sample.ogg'') [] [] abc_default
                     calm_world)))
        (lit ''xyz''))
     = Some True \<and>
   files
     (snd (snd (clone_voice (lit ''xyz'') (lit ''temp_audio/sample.ogg'') [] [] abc_default
                  calm_world)))
     (lit ''voice_library/xyz/reference_audio.wav'')
     = Some [79, 103, 103] \<and>
   settings_of
     (fst (snd (clone_voice (lit ''xyz'') (lit ''temp_audio/sample.ogg'') [] [] abc_default
                  calm_world)))
     (lit ''xyz'')
     = Some default_settings \<and>
   has_voice start_config DEFAULT_VOICE_NAME \<and>
   fst (clone_voice DEFAULT_VOICE_NAME (lit ''temp_audio/sample.ogg'') [] [] start_config calm_world)
     = Inr (True, Cloned DEFAULT_VOICE_NAME) \<and>
   get_voice_list
     (fst (snd (clone_voice DEFAULT_VOICE_NAME (lit ''temp_audio/sample.ogg'') [] [] start_config
                  calm_world)))
     = [lit ''default''] \<and>
   map_option cloned
     (get_voice_info
        (fst (snd (clone_voice DEFAULT_VOICE_NAME (lit ''temp_audio/sample.ogg'') [] [] start_config
                     calm_world)))
        DEFAULT_VOICE_NAME)
     = Some True"
proof -
  let ?A = "clone_voice (lit ''abc'') (lit ''temp_audio/sample.ogg'') [] [] abc_default calm_world"
  let ?X = "clone_voice (lit ''xyz'') (lit ''temp_audio/sample.ogg'') [] [] abc_default calm_world"
  let ?D = "clone_voice DEFAULT_VOICE_NAME (lit ''temp_audio/sample.ogg'') [] [] start_config calm_world"
  let ?dv = "default_voice_entry (lit ''2026-01-01 10:00:00'')"
  have pa: "?A = (fst ?A, fst (snd ?A), snd (snd ?A))" by simp
  have px: "?X = (fst ?X, fst (snd ?X), snd (snd ?X))" by simp
  have pd: "?D = (fst ?D, fst (snd ?D), snd (snd ?D))" by simp
  have h: "has_voice abc_default (lit ''abc'') \<and> lit ''abc'' \<noteq> DEFAULT_VOICE_NAME"
    by (simp add: sample_defs)
  have nx: "\<not> has_voice abc_default (lit ''xyz'')" by (simp add: sample_defs)
  have ptr: "default_voice abc_default = lit ''abc''" by (simp add: abc_default_def)
  have hd: "has_voice start_config DEFAULT_VOICE_NAME" by (simp add: sample_defs)
  have dva: "get_voice_info abc_default DEFAULT_VOICE_NAME = Some ?dv" by (simp add: sample_defs)
  have dvs: "get_voice_info start_config DEFAULT_VOICE_NAME = Some ?dv" by (simp add: sample_defs)
  have f: "files calm_world (lit ''temp_audio/sample.ogg'') = Some [79, 103, 103]"
    by (simp add: calm_world_def)
  have ok: "makedirs_ok calm_world \<and> copy_ok calm_world \<and> store_ok calm_world"
    by (simp add: calm_world_def store_ok_def)
  have q: "path_join (path_join VOICE_LIBRARY_DIR (lit ''xyz'')) (lit ''reference_audio.wav'')
             = lit ''voice_library/xyz/reference_audio.wav''"
    by (simp add: path_join_def startswith_def VOICE_LIBRARY_DIR_def lit_def)
  have ob: "objs abc_default (settings ?dv) = default_settings"
    by (simp add: abc_default_def default_voice_entry_def)
  have gla: "get_voice_list abc_default @ [lit ''xyz''] = [lit ''default'', lit ''abc'', lit ''xyz'']"
    by (simp add: sample_defs)
  have gls: "get_voice_list start_config = [lit ''default'']" by (simp add: sample_defs)
  have ra: "?A = (Inr (False, AlreadyExists), abc_default, calm_world)"
    using clone_voice_spec [OF pa] h by (metis prod.collapse)
  from clone_voice_spec [OF px, of ?dv "[79, 103, 103]"] nx dva f ok
  have rx: "fst ?X = Inr (True, Cloned (lit ''xyz'')) \<and>
            get_voice_list (fst (snd ?X)) = get_voice_list abc_default @ [lit ''xyz''] \<and>
            map_option cloned (get_voice_info (fst (snd ?X)) (lit ''xyz'')) = Some True \<and>
            files (snd (snd ?X))
              (path_join (path_join VOICE_LIBRARY_DIR (lit ''xyz'')) (lit ''reference_audio.wav''))
              = Some [79, 103, 103] \<and>
            settings_of (fst (snd ?X)) (lit ''xyz'') = Some (objs abc_default (settings ?dv))"
    by simp
  from clone_voice_spec [OF pd, of ?dv "[79, 103, 103]"] hd dvs f ok
  have rd: "fst ?D = Inr (True, Cloned DEFAULT_VOICE_NAME) \<and>
            get_voice_list (fst (snd ?D)) = get_voice_list start_config \<and>
            map_option cloned (get_voice_info (fst (snd ?D)) DEFAULT_VOICE_NAME) = Some True"
    by simp
  show ?thesis using ra rx rd h nx ptr hd f ok q ob gla gls by simp
qed

section \<open>Numeric parameter edits\<close>

text \<open>
  The range check \<open>value < lo or value > hi\<close> lets through the values of the interval
  and NaN, and nothing else.
\<close>

lemma range_check_passes:
  "\<not> (fless v (Finite a) \<or> fgreater v (Finite b))
     \<longleftrightarrow> v = NaN \<or> (\<exists>x. v = Finite x \<and> a \<le> x \<and> x \<le> b)"
  by (cases v) (auto simp: fgreater_def)

lemma py_float_nan: "py_float [110, 97, 110] = Some NaN"
  by (simp add: py_float_def strip_def is_space_def take_sign_def ascii_lower_def lit_def)

text \<open>
  The part of C3 that holds. Text that \<open>float\<close> cannot read, and a value the range
  check of the parameter refuses, leave the session (with its pending parameter and
  voice), the registry and the world as they were: \<open>update_voice_settings\<close> is not
  called. A value that passes the check is stored in the settings of an existing voice.
  Digits of another script are read like ASCII digits.
\<close>

lemma numeric_edit_rejected:
  assumes "adjusting_param s = Some (pt, vn)" and "pt \<in> set numeric_params"
    and "py_float txt = None \<or>
         (\<exists>v. py_float txt = Some v \<and>
              (fless v (if pt = lit ''volume'' then f_0_1 else f_0_5) \<or> fgreater v f_2_0))"
  shows "raised (handle_text_input txt s m w) = None \<and>
         sess (handle_text_input txt s m w) = s \<and>
         mgr (handle_text_input txt s m w) = m \<and>
         wld (handle_text_input txt s m w) = w \<and>
         replies (handle_text_input txt s m w) \<in>
           {[NotANumber], [SpeedOutOfRange], [PitchOutOfRange], [VolumeOutOfRange]}"
  using assms
  by (auto simp: handle_text_input_def adjust_param_text_def numeric_params_def returns_def lit_def)

lemma numeric_edit_accepted:
  assumes "adjusting_param s = Some (pt, vn)" and "pt \<in> set numeric_params"
    and "py_float txt = Some v"
    and "\<not> fless v (if pt = lit ''volume'' then f_0_1 else f_0_5)" and "\<not> fgreater v f_2_0"
    and "get_voice_info m vn = Some e"
  shows "map_option (\<lambda>d. map_of d pt) (settings_of (mgr (handle_text_input txt s m w)) vn)
           = Some (Some (VFloat v))"
  using assms
  by (auto simp: handle_text_input_def adjust_param_text_def numeric_params_def returns_def raises_def
      lit_def update_voice_settings_def save_config_def store_ok_def fault_exn_def after_fault_def Let_def settings_of_def get_voice_info_def
      dict_update_def update_conv'
      split: option.splits)

text \<open>
  When the write inside \<open>update_voice_settings\<close> fails in the encoder, the handler takes
  the \<open>ValueError\<close> for a bad number: it asks for a correct number and keeps the pending
  parameter, although the value is already stored in memory.
\<close>

lemma encode_fault_reads_as_bad_number:
  assumes "adjusting_param s = Some (pt, vn)" and "pt \<in> set numeric_params"
    and "py_float txt = Some v"
    and "\<not> fless v (if pt = lit ''volume'' then f_0_1 else f_0_5)" and "\<not> fgreater v f_2_0"
    and "get_voice_info m vn = Some e" and "store_fault w = Some EncodeFails"
  shows "replies (handle_text_input txt s m w) = [NotANumber] \<and>
         raised (handle_text_input txt s m w) = None \<and>
         sess (handle_text_input txt s m w) = s \<and>
         map_option (\<lambda>d. map_of d pt) (settings_of (mgr (handle_text_input txt s m w)) vn)
           = Some (Some (VFloat v))"
  using assms
  by (auto simp: handle_text_input_def adjust_param_text_def numeric_params_def returns_def raises_def
      lit_def update_voice_settings_def save_config_def fault_exn_def Let_def settings_of_def
      get_voice_info_def dict_update_def update_conv'
      split: option.splits)

text \<open>
  The scenario of a speed edit on concrete texts: \<open>0.1\<close> in the source is the binary64
  value nearest to one tenth; \<open>3.5\<close> is refused and nothing changes; \<open>1.2\<close> is stored
  as the binary64 value nearest to it.
\<close>

lemma f_0_1_is_literal: "round_binary64 (1 / 10) = f_0_1"
  unfolding f_0_1_def by code_simp

lemma round_3_5: "round_binary64 (7 / 2) = Finite (7 / 2)"
  by code_simp

lemma py_float_3_5: "py_float [51, 46, 53] = Some (Finite (7 / 2))"
  by (simp add: py_float_def strip_def is_space_def take_sign_def ascii_lower_def lit_def
      floatnumber_def digitpart_def is_digit_def digit_of_def decimal_zeros_def digits_value_def
      exponent_def scale10_def round_3_5)


lemma round_1_2: "round_binary64 (6 / 5) = Finite (5404319552844595 / 4503599627370496)"
  by code_simp

lemma py_float_1_2: "py_float [49, 46, 50] = Some (Finite (5404319552844595 / 4503599627370496))"
  by (simp add: py_float_def strip_def is_space_def take_sign_def ascii_lower_def lit_def
      floatnumber_def digitpart_def is_digit_def digit_of_def decimal_zeros_def digits_value_def
      exponent_def scale10_def round_1_2)

lemma py_float_arabic_indic: "py_float [1633, 46, 1637] = Some (Finite (3 / 2))"
proof -
  have r: "round_binary64 (3 / 2) = Finite (3 / 2)" by code_simp
  show ?thesis
    by (simp add: py_float_def strip_def is_space_def take_sign_def ascii_lower_def lit_def
        floatnumber_def digitpart_def is_digit_def digit_of_def decimal_zeros_def digits_value_def
        exponent_def scale10_def r)
qed

lemma speed_edit_scenario:
  "handle_text_input (lit ''3.5'')
     (idle\<lparr>adjusting_param := Some (lit ''speed'', lit ''default'')\<rparr>) start_config calm_world
     = returns [SpeedOutOfRange]
         (idle\<lparr>adjusting_param := Some (lit ''speed'', lit ''default'')\<rparr>) start_config calm_world \<and>
   replies (handle_text_input (lit ''1.2'')
              (idle\<lparr>adjusting_param := Some (lit ''speed'', lit ''default'')\<rparr>)
              start_config calm_world)
     = [ParamSet (lit ''speed'') (Finite (5404319552844595 / 4503599627370496))] \<and>
   settings_of
     (mgr (handle_text_input (lit ''1.2'')
             (idle\<lparr>adjusting_param := Some (lit ''speed'', lit ''default'')\<rparr>)
             start_config calm_world))
     (lit ''default'')
     = Some ((lit ''speed'', VFloat (Finite (5404319552844595 / 4503599627370496)))
             # tl default_settings)"
  by (simp add: handle_text_input_def idle_def adjust_param_text_def numeric_params_def
      py_float_3_5 py_float_1_2 fgreater_def update_voice_settings_def get_settings_keyboard_def
      save_config_def store_ok_def fault_exn_def after_fault_def Let_def returns_def raises_def sample_defs default_voice_entry_def
      default_settings_def dict_update_def settings_keys_def f_0_5_def f_2_0_def settings_of_def)

text \<open>
  C3 fails for the text \<open>nan\<close>: it parses to NaN, which lies outside every bound, but
  both comparisons of the range check are false for it. While the speed of \<open>default\<close>
  is being adjusted, the handler calls \<open>update_voice_settings\<close>, stores NaN as the
  speed, confirms, and deletes the pending parameter from the session.
\<close>

theorem nan_passes_range_check:
  "py_float (lit ''nan'') = Some NaN \<and>
   raised (handle_text_input (lit ''nan'')
             (idle\<lparr>adjusting_param := Some (lit ''speed'', lit ''default'')\<rparr>)
             start_config calm_world) = None \<and>
   replies (handle_text_input (lit ''nan'')
              (idle\<lparr>adjusting_param := Some (lit ''speed'', lit ''default'')\<rparr>)
              start_config calm_world) = [ParamSet (lit ''speed'') NaN] \<and>
   sess (handle_text_input (lit ''nan'')
           (idle\<lparr>adjusting_param := Some (lit ''speed'', lit ''default'')\<rparr>)
           start_config calm_world) = idle \<and>
   settings_of start_config (lit ''default'') = Some default_settings \<and>
   settings_of
     (mgr (handle_text_input (lit ''nan'')
             (idle\<lparr>adjusting_param := Some (lit ''speed'', lit ''default'')\<rparr>)
             start_config calm_world))
     (lit ''default'')
     = Some ((lit ''speed'', VFloat NaN) # tl default_settings)"
  by (simp add: handle_text_input_def idle_def adjust_param_text_def numeric_params_def py_float_nan
      fgreater_def update_voice_settings_def get_settings_keyboard_def save_config_def store_ok_def fault_exn_def after_fault_def Let_def
      returns_def raises_def sample_defs default_voice_entry_def default_settings_def
      dict_update_def settings_keys_def f_0_5_def f_2_0_def settings_of_def)

section \<open>Synthesis and the pending text\<close>

text \<open>
  When \<open>synthesize\<close> returns no file the call reports the error and returns with the
  session as it was; the pending text is deleted only on the path that removes the
  audio file after sending.
\<close>

lemma synthesis_failure_keeps_text:
  assumes "pending_text s = Some t" and "t \<noteq> []" and "fst (synthesize t vn m w) = None"
  shows "sess (synthesize_and_send vn s m w) = s \<and>
         replies (synthesize_and_send vn s m w) = [Generating vn, GenerationError]"
  using assms
  by (auto simp: synthesize_and_send_def returns_def split: prod.splits option.splits)

lemma synthesis_sent_clears_text:
  assumes "pending_text s = Some t" and "t \<noteq> []" and "tts_loaded w" and "pipeline_out w = Some a"
    and "has_voice m DEFAULT_VOICE_NAME" and "send_ok w" and "length a \<le> 50 * 1024 * 1024"
  shows "pending_text (sess (synthesize_and_send vn s m w)) = None"
proof -
  obtain dv where "get_voice_info m DEFAULT_VOICE_NAME = Some dv"
    using assms(5) by (auto simp: has_voice_map_of get_voice_info_def)
  then show ?thesis using assms
    by (auto simp: synthesize_and_send_def synthesize_def returns_def Let_def write_file_def
        path_exists_def os_remove_def path_join_def startswith_def TEMP_DIR_def lit_def
        split: prod.splits option.splits sum.splits)
qed


section \<open>The main-menu button\<close>

text \<open>
  C9, as the code has it. From every session, with every registry and world, the button
  \<open>back_to_main\<close> answers the query and shows the main menu, and changes nothing: the
  session keeps every flag and every collected value, and no file is removed.
\<close>

theorem main_menu_button_changes_nothing:
  "button_callback (lit ''back_to_main'') s m w = returns [Answered, ShowMainMenu] s m w"
  by (simp add: button_callback_def startswith_def lit_def)

text \<open>
  C9 as stated fails: a session with a pending text and a buffered sample is the same
  after the button, and the sample file is still there.
\<close>

theorem main_menu_keeps_session_counterexample:
  "sess (button_callback (lit ''back_to_main'')
           (idle\<lparr>pending_text := Some (lit ''hello''),
                 voice_audio_path := Some (lit ''temp_audio/sample.ogg''),
                 awaiting_cloned_voice_name := True\<rparr>)
           start_config calm_world)
     = idle\<lparr>pending_text := Some (lit ''hello''),
             voice_audio_path := Some (lit ''temp_audio/sample.ogg''),
             awaiting_cloned_voice_name := True\<rparr> \<and>
   idle\<lparr>pending_text := Some (lit ''hello''),
        voice_audio_path := Some (lit ''temp_audio/sample.ogg''),
        awaiting_cloned_voice_name := True\<rparr> \<noteq> idle \<and>
   files (wld (button_callback (lit ''back_to_main'')
                 (idle\<lparr>pending_text := Some (lit ''hello''),
                       voice_audio_path := Some (lit ''temp_audio/sample.ogg''),
                       awaiting_cloned_voice_name := True\<rparr>)
                 start_config calm_world))
     (lit ''temp_audio/sample.ogg'')
     = Some [79, 103, 103]"
  by (simp add: button_callback_def startswith_def lit_def returns_def idle_def calm_world_def)

section \<open>Audio intake\<close>

text \<open>
  The part of C8 that holds: a sample whose probed duration is above the configured
  maximum or below one second is rejected, its temporary file is removed, and session
  and registry stay as they were; a sample with a duration in between is accepted and
  kept. The last lemma is what the code does when the probe raises.
\<close>

lemma intake_rejects_bad_duration:
  assumes "awaiting_voice_audio s" and "attached msg = Some VoiceNote \<or> attached msg = Some AudioFile"
    and "download w = Some b" and "probe w = Some dur"
    and "fgreater dur (max_voice_duration m) \<or> fless dur f_1_0"
  shows "raised (handle_audio msg s m w) = None \<and>
         sess (handle_audio msg s m w) = s \<and>
         mgr (handle_audio msg s m w) = m \<and>
         files (wld (handle_audio msg s m w))
           (path_join TEMP_DIR (lit ''voice_'' @ now_compact w @ lit ''.ogg'')) = None \<and>
         replies (handle_audio msg s m w) \<in> {[Downloading, AudioTooLong], [Downloading, AudioTooShort]}"
  using assms
  by (auto simp: handle_audio_def intake_audio_def returns_def Let_def write_file_def os_remove_def
      split: option.splits attachment.splits sum.splits)

lemma intake_accepts_good_duration:
  assumes "awaiting_voice_audio s" and "attached msg = Some VoiceNote \<or> attached msg = Some AudioFile"
    and "download w = Some b" and "probe w = Some dur"
    and "\<not> fgreater dur (max_voice_duration m)" and "\<not> fless dur f_1_0"
  shows "handle_audio msg s m w =
           returns [Downloading, AudioReceived dur]
             (accepted (path_join TEMP_DIR (lit ''voice_'' @ now_compact w @ lit ''.ogg'')) s) m
             (write_file (path_join TEMP_DIR (lit ''voice_'' @ now_compact w @ lit ''.ogg'')) b w)"
  using assms
  by (auto simp: handle_audio_def intake_audio_def returns_def Let_def write_file_def os_remove_def
      split: option.splits attachment.splits sum.splits)

lemma intake_probe_failure:
  assumes "awaiting_voice_audio s" and "attached msg = Some VoiceNote \<or> attached msg = Some AudioFile"
    and "download w = Some b" and "probe w = None"
  shows "raised (handle_audio msg s m w) = None \<and>
         replies (handle_audio msg s m w) = [Downloading, AudioError] \<and>
         sess (handle_audio msg s m w)
           = accepted (path_join TEMP_DIR (lit ''voice_'' @ now_compact w @ lit ''.ogg'')) s \<and>
         files (wld (handle_audio msg s m w))
           (path_join TEMP_DIR (lit ''voice_'' @ now_compact w @ lit ''.ogg'')) = None"
  using assms
  by (auto simp: handle_audio_def intake_audio_def outer_except_def remove_if_exists_def
      path_exists_def returns_def raises_def Let_def write_file_def os_remove_def
      split: option.splits attachment.splits sum.splits)

text \<open>
  C8 fails on the code when the duration probe cannot run: the warning is logged and
  the session keys of an accepted sample are stored, but the reply that follows formats
  the variable \<open>duration\<close>, which was never assigned; the handler of the outer \<open>try\<close>
  removes the sample and answers with the error text. The session then points to a file
  that no longer exists. With a probe that reports five seconds the same message is
  accepted and the file kept.
\<close>

theorem probe_failure_is_fatal:
  "replies (handle_audio \<lparr>msg_text = None, attached = Some VoiceNote\<rparr>
              (idle\<lparr>awaiting_voice_audio := True\<rparr>) start_config (calm_world\<lparr>probe := None\<rparr>))
     = [Downloading, AudioError] \<and>
   files (wld (handle_audio \<lparr>msg_text = None, attached = Some VoiceNote\<rparr>
                 (idle\<lparr>awaiting_voice_audio := True\<rparr>) start_config (calm_world\<lparr>probe := None\<rparr>)))
     (lit ''temp_audio/voice_20260101_120000.ogg'')
     = None \<and>
   sess (handle_audio \<lparr>msg_text = None, attached = Some VoiceNote\<rparr>
           (idle\<lparr>awaiting_voice_audio := True\<rparr>) start_config (calm_world\<lparr>probe := None\<rparr>))
     = idle\<lparr>voice_audio_path := Some (lit ''temp_audio/voice_20260101_120000.ogg''),
            awaiting_cloned_voice_name := True\<rparr> \<and>
   replies (handle_audio \<lparr>msg_text = None, attached = Some VoiceNote\<rparr>
              (idle\<lparr>awaiting_voice_audio := True\<rparr>) start_config
              (calm_world\<lparr>probe := Some (Finite 5)\<rparr>))
     = [Downloading, AudioReceived (Finite 5)] \<and>
   files (wld (handle_audio \<lparr>msg_text = None, attached = Some VoiceNote\<rparr>
                 (idle\<lparr>awaiting_voice_audio := True\<rparr>) start_config
                 (calm_world\<lparr>probe := Some (Finite 5)\<rparr>)))
     (lit ''temp_audio/voice_20260101_120000.ogg'')
     = Some [79, 103, 103]"
  by (simp add: handle_audio_def intake_audio_def outer_except_def remove_if_exists_def
      path_exists_def returns_def raises_def Let_def write_file_def os_remove_def accepted_def
      idle_def sample_defs path_join_def startswith_def TEMP_DIR_def fgreater_def f_1_0_def)

section \<open>Description steps\<close>

text \<open>
  The three places where a description is typed in: the last step of creation, the last
  step of cloning, and the edit of an existing description.
\<close>

lemma create_step_skip:
  assumes "adjusting_param s = None" and "editing_description s = None"
    and "\<not> awaiting_voice_name s" and "awaiting_voice_description s"
    and "new_voice_name s = Some n" and "lower (strip txt) \<in> set skip_tokens"
  shows "mgr (handle_text_input txt s m w)
           = fst (snd (create_voice n None None (user_voice_prefix @ n) m w)) \<and>
         wld (handle_text_input txt s m w)
           = snd (snd (create_voice n None None (user_voice_prefix @ n) m w))"
  using assms
  by (auto simp: handle_text_input_def voice_description_text_def returns_def raises_def Let_def
      split: prod.splits sum.splits option.splits)

lemma create_default_description:
  assumes "\<not> has_voice m n" and "has_voice m DEFAULT_VOICE_NAME"
  shows "map_option description
           (get_voice_info (fst (snd (create_voice n None None (user_voice_prefix @ n) m w))) n)
         = Some (user_voice_prefix @ n)"
proof -
  obtain dv where dv: "get_voice_info m DEFAULT_VOICE_NAME = Some dv"
    using assms(2) by (auto simp: has_voice_map_of get_voice_info_def)
  show ?thesis
    using assms(1) dv
    by (auto simp: create_voice_def model_or_default_def settings_or_default_def default_entry_def
        copy_settings_def save_config_def Let_def get_voice_info_def update_conv'
        user_voice_prefix_def
        split: prod.splits sum.splits option.splits)
qed

lemma edit_step_cap:
  assumes "adjusting_param s = None" and "editing_description s = Some vn"
    and "200 < length (strip txt)"
  shows "handle_text_input txt s m w = returns [DescriptionTooLong] s m w"
  using assms by (simp add: handle_text_input_def edit_description_text_def Let_def)

lemma edit_step_stores_text:
  assumes "adjusting_param s = None" and "editing_description s = Some vn"
    and "length (strip txt) \<le> 200" and "has_voice m vn"
  shows "map_option description (get_voice_info (mgr (handle_text_input txt s m w)) vn)
           = Some (strip txt)"
proof -
  obtain v where v: "get_voice_info m vn = Some v"
    using assms(4) by (auto simp: has_voice_map_of get_voice_info_def)
  show ?thesis
    using assms(1,2,3) v
    by (auto simp: handle_text_input_def edit_description_text_def set_description_def
        save_config_def returns_def raises_def Let_def get_voice_info_def update_conv'
        split: prod.splits option.splits)
qed

text \<open>
  The creation step passes any other text on to \<open>create_voice\<close> after stripping it,
  whatever its length.
\<close>

lemma create_step_has_no_cap:
  assumes "adjusting_param s = None" and "editing_description s = None"
    and "\<not> awaiting_voice_name s" and "awaiting_voice_description s"
    and "new_voice_name s = Some n" and "lower (strip txt) \<notin> set skip_tokens"
  shows "mgr (handle_text_input txt s m w) = fst (snd (create_voice n None None (strip txt) m w))"
  using assms
  by (auto simp: handle_text_input_def voice_description_text_def returns_def raises_def Let_def
      split: prod.splits sum.splits option.splits)

text \<open>
  The name step and the description step of cloning are branches of the audio handler
  and read the text of the message. A message that carries a voice note, an audio file
  or a document has no text, and for such a message both steps raise \<open>AttributeError\<close>
  and change nothing. With a text, the description step treats a skip word like the
  creation step does, and has no length check either.
\<close>

lemma cloning_text_steps_without_text:
  assumes "\<not> awaiting_voice_audio s" and "msg_text msg = None"
    and "awaiting_cloned_voice_name s \<or>
         (awaiting_cloned_voice_description s \<and> cloned_voice_name s \<noteq> None)"
  shows "handle_audio msg s m w = raises AttributeError [] s m w"
  using assms
  by (auto simp: handle_audio_def cloned_name_step_def cloned_description_step_def
      split: option.splits)

lemma clone_step_skip:
  assumes "\<not> awaiting_voice_audio s" and "\<not> awaiting_cloned_voice_name s"
    and "awaiting_cloned_voice_description s" and "cloned_voice_name s = Some n"
    and "msg_text msg = Some txt" and "lower (strip txt) \<in> set skip_tokens"
    and "voice_audio_path s = Some ap" and "ap \<noteq> []" and "path_exists w ap"
  shows "mgr (handle_audio msg s m w)
           = fst (snd (clone_voice n ap [] (cloned_voice_prefix @ n) m w))"
  using assms
  by (auto simp: handle_audio_def cloned_description_step_def returns_def raises_def Let_def
      split: prod.splits sum.splits option.splits)

text \<open>
  C7, as the code has it. In the description step of creation, a text that is a skip
  word after stripping and lower-casing makes the handler call \<open>create_voice\<close> with the
  generated description (the prefix "user voice: " in Russian followed by the name),
  which is then the description of the new voice. The edit of a description knows no
  skip words: a text of more than 200 characters after stripping is refused with the
  reply that it is too long, and session, registry and world stay as they were; every
  other text, a skip word included, becomes the description of the voice as typed,
  stripped.
\<close>

theorem description_steps:
  "(adjusting_param s = None \<and> editing_description s = None \<and> \<not> awaiting_voice_name s \<and>
    awaiting_voice_description s \<and> new_voice_name s = Some n \<and>
    lower (strip txt) \<in> set skip_tokens \<longrightarrow>
      mgr (handle_text_input txt s m w)
        = fst (snd (create_voice n None None (user_voice_prefix @ n) m w)) \<and>
      (\<not> has_voice m n \<and> has_voice m DEFAULT_VOICE_NAME \<longrightarrow>
         map_option description (get_voice_info (mgr (handle_text_input txt s m w)) n)
           = Some (user_voice_prefix @ n))) \<and>
   (adjusting_param s = None \<and> editing_description s = Some vn \<and> 200 < length (strip txt) \<longrightarrow>
      handle_text_input txt s m w = returns [DescriptionTooLong] s m w) \<and>
   (adjusting_param s = None \<and> editing_description s = Some vn \<and> length (strip txt) \<le> 200 \<and>
    has_voice m vn \<longrightarrow>
      map_option description (get_voice_info (mgr (handle_text_input txt s m w)) vn)
        = Some (strip txt))"
proof -
  have A: "mgr (handle_text_input txt s m w)
             = fst (snd (create_voice n None None (user_voice_prefix @ n) m w)) \<and>
           (\<not> has_voice m n \<and> has_voice m DEFAULT_VOICE_NAME \<longrightarrow>
              map_option description (get_voice_info (mgr (handle_text_input txt s m w)) n)
                = Some (user_voice_prefix @ n))"
    if a: "adjusting_param s = None \<and> editing_description s = None \<and> \<not> awaiting_voice_name s \<and>
           awaiting_voice_description s \<and> new_voice_name s = Some n \<and>
           lower (strip txt) \<in> set skip_tokens"
  proof -
    from a have "adjusting_param s = None" "editing_description s = None" "\<not> awaiting_voice_name s"
      "awaiting_voice_description s" "new_voice_name s = Some n"
      "lower (strip txt) \<in> set skip_tokens" by simp_all
    from create_step_skip [OF this, of m w]
    show ?thesis using create_default_description [of m n w] by simp
  qed
  have B: "handle_text_input txt s m w = returns [DescriptionTooLong] s m w"
    if b: "adjusting_param s = None \<and> editing_description s = Some vn \<and> 200 < length (strip txt)"
    using edit_step_cap [of s vn "txt" m w] b by simp
  have C: "map_option description (get_voice_info (mgr (handle_text_input txt s m w)) vn)
             = Some (strip txt)"
    if c: "adjusting_param s = None \<and> editing_description s = Some vn \<and>
           length (strip txt) \<le> 200 \<and> has_voice m vn"
    using edit_step_stores_text [of s vn "txt" m w] c by simp
  show ?thesis using A B C by blast
qed

text \<open>
  C7 as stated fails in the edit step, which knows no skip words: the text \<open>-\<close> becomes
  the description of the voice.
\<close>

theorem edit_step_stores_skip_token_counterexample:
  "lit ''-'' \<in> set skip_tokens \<and>
   replies (handle_text_input (lit ''-'') (idle\<lparr>editing_description := Some (lit ''default'')\<rparr>)
              start_config calm_world)
     = [DescriptionUpdated (lit ''default'')] \<and>
   map_option description
     (get_voice_info
        (mgr (handle_text_input (lit ''-'') (idle\<lparr>editing_description := Some (lit ''default'')\<rparr>)
                start_config calm_world))
        (lit ''default''))
     = Some (lit ''-'')"
  by (simp add: skip_tokens_def handle_text_input_def edit_description_text_def set_description_def
      idle_def strip_def is_space_def save_config_def returns_def raises_def Let_def sample_defs)

text \<open>A text of letters only is its own stripped form.\<close>

lemma strip_letters: "strip (replicate k 97) = replicate k 97"
  by (simp add: strip_def is_space_def dropWhile_replicate)

text \<open>
  C7 on the scenario of the specification: the name \<open>abc\<close> was entered, the text \<open>-\<close>
  creates the voice with the generated description. In the edit of the description of
  \<open>default\<close>, a text of 201 letters is refused, and the skip word \<open>skip\<close> is stored as
  the description.
\<close>

theorem description_steps_witness:
  "lower (strip (lit ''-'')) \<in> set skip_tokens \<and>
   \<not> has_voice start_config (lit ''abc'') \<and> has_voice start_config DEFAULT_VOICE_NAME \<and>
   map_option description
     (get_voice_info
        (mgr (handle_text_input (lit ''-'')
                (idle\<lparr>awaiting_voice_description := True, new_voice_name := Some (lit ''abc'')\<rparr>)
                start_config calm_world))
        (lit ''abc''))
     = Some (user_voice_prefix @ lit ''abc'') \<and>
   200 < length (strip (replicate 201 97)) \<and>
   handle_text_input (replicate 201 97) (idle\<lparr>editing_description := Some (lit ''default'')\<rparr>)
       start_config calm_world
     = returns [DescriptionTooLong] (idle\<lparr>editing_description := Some (lit ''default'')\<rparr>)
         start_config calm_world \<and>
   lit ''skip'' \<in> set skip_tokens \<and> length (strip (lit ''skip'')) \<le> 200 \<and>
   map_option description
     (get_voice_info
        (mgr (handle_text_input (lit ''skip'')
                (idle\<lparr>editing_description := Some (lit ''default'')\<rparr>) start_config calm_world))
        (lit ''default''))
     = Some (lit ''skip'')"
proof -
  let ?s = "idle\<lparr>awaiting_voice_description := True, new_voice_name := Some (lit ''abc'')\<rparr>"
  let ?e = "idle\<lparr>editing_description := Some (lit ''default'')\<rparr>"
  have k: "lower (strip (lit ''-'')) \<in> set skip_tokens"
    by (simp add: skip_tokens_def strip_def is_space_def lower_def lower_cp_def lit_def)
  have h: "\<not> has_voice start_config (lit ''abc'') \<and> has_voice start_config DEFAULT_VOICE_NAME"
    by (simp add: sample_defs)
  have hd: "has_voice start_config (lit ''default'')" by (simp add: sample_defs)
  have s: "adjusting_param ?s = None \<and> editing_description ?s = None \<and> \<not> awaiting_voice_name ?s \<and>
           awaiting_voice_description ?s \<and> new_voice_name ?s = Some (lit ''abc'')"
    by (simp add: idle_def)
  have e: "adjusting_param ?e = None \<and> editing_description ?e = Some (lit ''default'')"
    by (simp add: idle_def)
  have l: "200 < length (strip (replicate 201 97))" by (simp add: strip_letters)
  have t: "lit ''skip'' \<in> set skip_tokens" by (simp add: skip_tokens_def)
  have st: "strip (lit ''skip'') = lit ''skip''" by (simp add: strip_def is_space_def lit_def)
  have sl: "length (strip (lit ''skip'')) \<le> 200" by (simp add: st) (simp add: lit_def)
  from description_steps [of ?s "lit ''abc''" "lit ''-''" start_config calm_world] k h s
  have r1: "map_option description
              (get_voice_info (mgr (handle_text_input (lit ''-'') ?s start_config calm_world))
                 (lit ''abc''))
            = Some (user_voice_prefix @ lit ''abc'')"
    by blast
  from description_steps [of ?e _ "replicate 201 97" start_config calm_world "lit ''default''"] e l
  have r2: "handle_text_input (replicate 201 97) ?e start_config calm_world
              = returns [DescriptionTooLong] ?e start_config calm_world"
    by blast
  from description_steps [of ?e _ "lit ''skip''" start_config calm_world "lit ''default''"] e sl hd
  have r3: "map_option description
              (get_voice_info (mgr (handle_text_input (lit ''skip'') ?e start_config calm_world))
                 (lit ''default''))
            = Some (strip (lit ''skip''))"
    by blast
  show ?thesis using k h l t sl r1 r2 r3 st by simp
qed

end
